theory Spec2Isabelle
  imports Complex_Main "HOL-Library.Word" "HOL-Library.Sublist"
begin

section \<open>rapid-mutex: a mutex on one shared 32-bit word\<close>

text \<open>
  The source is \<^verbatim>\<open>src/index.js\<close>. Every function of it that the properties below are
  about is embedded here under its own name. What the JavaScript host supplies (the clock,
  the scheduling of the other participants, the outcome of a wait, the conversion of a
  number to a string, the UTF-8 encoder) is an explicit argument of the model.
\<close>

subsection \<open>JavaScript values\<close>

text \<open>
  A JavaScript number is finite, one of the two infinities, or NaN. Finite numbers are
  modelled by reals: comparison is exact in the host too, and the one subtraction of the
  source (\<^verbatim>\<open>timeoutMs - elapsed\<close>) only feeds the timeout handed to the wait primitive.
\<close>

datatype jsnum = Fin real | PosInf | NegInf | NaN

text \<open>The relational operator \<^verbatim>\<open><\<close> on numbers: false whenever an operand is NaN.\<close>

fun js_lt :: "jsnum \<Rightarrow> jsnum \<Rightarrow> bool" where
  "js_lt (Fin x) (Fin y) = (x < y)"
| "js_lt (Fin x) PosInf = True"
| "js_lt NegInf (Fin y) = True"
| "js_lt NegInf PosInf = True"
| "js_lt _ _ = False"

text \<open>\<^verbatim>\<open>a > b\<close> is \<^verbatim>\<open>b < a\<close>.\<close>

definition js_gt :: "jsnum \<Rightarrow> jsnum \<Rightarrow> bool" where
  "js_gt a b = js_lt b a"

fun js_sub :: "jsnum \<Rightarrow> jsnum \<Rightarrow> jsnum" where
  "js_sub (Fin x) (Fin y) = Fin (x - y)"
| "js_sub NaN _ = NaN"
| "js_sub _ NaN = NaN"
| "js_sub PosInf PosInf = NaN"
| "js_sub NegInf NegInf = NaN"
| "js_sub PosInf _ = PosInf"
| "js_sub NegInf _ = NegInf"
| "js_sub (Fin x) PosInf = NegInf"
| "js_sub (Fin x) NegInf = PosInf"

text \<open>\<^verbatim>\<open>Math.max(a, b)\<close>: NaN as soon as one argument is NaN.\<close>

fun js_max :: "jsnum \<Rightarrow> jsnum \<Rightarrow> jsnum" where
  "js_max NaN _ = NaN"
| "js_max _ NaN = NaN"
| "js_max a b = (if js_lt a b then b else a)"

type_synonym addr = nat

text \<open>A JavaScript string is a sequence of UTF-16 code units.\<close>

type_synonym jsstring = "16 word list"

datatype backing = SharedArrayBuffer | ArrayBuffer

text \<open>
  An \<^verbatim>\<open>Int32Array\<close> is a view: the kind of its backing store, its length in elements and
  the address of its element 0 in the memory of 32-bit cells.
\<close>

record int32array =
  backing :: backing
  len :: nat
  base :: addr

text \<open>
  The values a caller can pass where the source expects a buffer, a timeout or an
  identifier. \<open>JObject\<close> stands for every other object (plain objects, arrays, typed
  arrays of another element type, array buffers).
\<close>

datatype jsvalue =
    JUndefined
  | JNull
  | JBoolean bool
  | JNumber jsnum
  | JString jsstring
  | JInt32Array int32array
  | JObject

subsection \<open>Errors, lock states\<close>

text \<open>
  \<^verbatim>\<open>class MutexError extends Error\<close>: the only thing it carries is its message.
  \<open>TypeError\<close> and \<open>RangeError\<close> are the host's own errors.
\<close>

datatype error = MutexError string | TypeError | RangeError

fun message :: "error \<Rightarrow> string" where
  "message (MutexError m) = m"
| "message TypeError = ''TypeError''"
| "message RangeError = ''RangeError''"

text \<open>\<^verbatim>\<open>LockStatus = { Unlocked: 0, Locked: 1 }\<close>\<close>

definition Unlocked :: "32 word" where
  "Unlocked = 0"

definition Locked :: "32 word" where
  "Locked = 1"

subsection \<open>The shared memory and what a participant does to it\<close>

text \<open>The four results a wait can report: 'ok', 'not-equal', 'timed-out', 'interrupted'.\<close>

datatype wait_result = Ok | NotEqual | TimedOut | Interrupted

text \<open>
  The calls a participant makes to the host, in the order it makes them:
  \<^verbatim>\<open>Date.now()\<close> with the value read; \<^verbatim>\<open>Atomics.compareExchange\<close> with the cell, the
  expected value, the replacement and the value found; a wait (\<^verbatim>\<open>Atomics.wait\<close> or
  \<^verbatim>\<open>waitAsync\<close>) with the cell, the expected value, the timeout and the result;
  \<^verbatim>\<open>Atomics.notify\<close> with the cell.
\<close>

datatype event =
    DateNow int
  | CompareExchange addr "32 word" "32 word" "32 word"
  | Wait addr "32 word" jsnum wait_result
  | Notify addr

text \<open>
  The world: the memory of 32-bit cells that all participants share, the next free
  address of the allocator, and the log of this participant's host calls.
\<close>

record world =
  heap :: "addr \<Rightarrow> 32 word"
  fresh :: addr
  log :: "event list"

text \<open>The events a run has added to the log.\<close>

definition emitted :: "world \<Rightarrow> world \<Rightarrow> event list" where
  "emitted w w' = drop (length (log w)) (log w')"

definition date_now :: "int \<Rightarrow> world \<Rightarrow> world" where
  "date_now c w = w\<lparr>log := log w @ [DateNow c]\<rparr>"

text \<open>
  \<^verbatim>\<open>Atomics.compareExchange(buffer, i, expected, replacement)\<close> on the cell at address
  \<open>a\<close>: it returns the value found and stores the replacement only when that value is
  the expected one.
\<close>

definition compareExchange :: "addr \<Rightarrow> 32 word \<Rightarrow> 32 word \<Rightarrow> world \<Rightarrow> 32 word \<times> world" where
  "compareExchange a expected replacement w =
     (let old = heap w a in
      (old, w\<lparr>heap := (if old = expected then (heap w)(a := replacement) else heap w),
              log := log w @ [CompareExchange a expected replacement old]\<rparr>))"

text \<open>\<^verbatim>\<open>Atomics.notify(buffer, i)\<close>: wakes every waiter on the cell; the memory is not written.\<close>

definition notify :: "addr \<Rightarrow> world \<Rightarrow> world" where
  "notify a w = w\<lparr>log := log w @ [Notify a]\<rparr>"

text \<open>\<^verbatim>\<open>Atomics.load(buffer, i)\<close>: a read.\<close>

definition load :: "addr \<Rightarrow> world \<Rightarrow> 32 word" where
  "load a w = heap w a"

text \<open>
  The wait primitive is the host's: \<^verbatim>\<open>Atomics.wait\<close> in \<^verbatim>\<open>lockSync\<close>, and in
  \<^verbatim>\<open>lock\<close> the constant \<^verbatim>\<open>waitAsync\<close>, which is \<^verbatim>\<open>Atomics.waitAsync\<close> where
  the host has it and a polling loop around \<^verbatim>\<open>Atomics.wait\<close> otherwise. What it reports
  depends on the other participants and on the clock, so the result is an argument.
\<close>

definition atomics_wait :: "addr \<Rightarrow> 32 word \<Rightarrow> jsnum \<Rightarrow> wait_result \<Rightarrow> world \<Rightarrow> wait_result \<times> world" where
  "atomics_wait a v timeoutMs res w = (res, w\<lparr>log := log w @ [Wait a v timeoutMs res]\<rparr>)"

definition waitAsync :: "addr \<Rightarrow> 32 word \<Rightarrow> jsnum \<Rightarrow> wait_result \<Rightarrow> world \<Rightarrow> wait_result \<times> world" where
  "waitAsync a v timeoutMs res w = (res, w\<lparr>log := log w @ [Wait a v timeoutMs res]\<rparr>)"

text \<open>
  One turn of the acquisition loop as the rest of the system shapes it: the value the
  other participants have stored in the lock word since this participant's previous
  atomic operation (\<open>None\<close> when they have not written it), the value \<^verbatim>\<open>Date.now()\<close>
  returns at the top of the turn, and the result of the wait of that turn. A run is
  driven by a list of turns; a loop that has used them all has not returned.
\<close>

record round =
  others :: "32 word option"
  clock :: int
  outcome :: wait_result

definition interfere :: "addr \<Rightarrow> 32 word option \<Rightarrow> world \<Rightarrow> world" where
  "interfere a v w = (case v of None \<Rightarrow> w | Some x \<Rightarrow> w\<lparr>heap := (heap w)(a := x)\<rparr>)"

text \<open>What is outside the repository: number-to-string conversion and \<^verbatim>\<open>TextEncoder\<close>.\<close>

record host =
  number_to_string :: "jsnum \<Rightarrow> string"
  utf8_encode :: "jsstring \<Rightarrow> 8 word list"

subsection \<open>Validation\<close>

fun validateMutexBuffer :: "jsvalue \<Rightarrow> error option" where
  "validateMutexBuffer (JInt32Array b) =
     (if len b < 1 then Some (MutexError ''Invalid buffer: must have length >= 1'')
      else if backing b \<noteq> SharedArrayBuffer
        then Some (MutexError ''Invalid buffer: must be backed by a SharedArrayBuffer'')
      else None)"
| "validateMutexBuffer _ = Some (MutexError ''Invalid buffer: must be an Int32Array'')"

text \<open>
  \<^verbatim>\<open>timeoutMs !== Infinity && (typeof timeoutMs !== 'number' || timeoutMs < 0)\<close>
\<close>

fun validateTimeout :: "jsvalue \<Rightarrow> error option" where
  "validateTimeout (JNumber t) =
     (if t \<noteq> PosInf \<and> js_lt t (Fin 0)
      then Some (MutexError ''Timeout must be a non-negative number or Infinity'')
      else None)"
| "validateTimeout _ = Some (MutexError ''Timeout must be a non-negative number or Infinity'')"

text \<open>A default parameter \<^verbatim>\<open>timeoutMs = Infinity\<close> replaces \<^verbatim>\<open>undefined\<close> only.\<close>

definition default_timeout :: "jsvalue \<Rightarrow> jsvalue" where
  "default_timeout v = (if v = JUndefined then JNumber PosInf else v)"

subsection \<open>Acquisition and release\<close>

text \<open>The handle \<^verbatim>\<open>{ [dispose]: () => unlock(buffer, true) }\<close> holds the buffer it was made for.\<close>

datatype handle = Handle jsvalue

definition timed_out :: "host \<Rightarrow> jsnum \<Rightarrow> error" where
  "timed_out h timeoutMs =
     MutexError (''Mutex lock acquisition timed out after '' @ number_to_string h timeoutMs @ ''ms'')"

definition remaining :: "jsnum \<Rightarrow> int \<Rightarrow> jsnum" where
  "remaining timeoutMs elapsed =
     (if timeoutMs = PosInf then PosInf
      else js_max (Fin 0) (js_sub timeoutMs (Fin (of_int elapsed))))"

text \<open>The \<^verbatim>\<open>while (true)\<close> of \<^verbatim>\<open>lock\<close>, one turn per element of the list.\<close>

fun lock_loop ::
  "host \<Rightarrow> jsvalue \<Rightarrow> addr \<Rightarrow> jsnum \<Rightarrow> int \<Rightarrow> round list \<Rightarrow> world \<Rightarrow> (error + handle) option \<times> world"
where
  "lock_loop h buffer a timeoutMs start [] w = (None, w)"
| "lock_loop h buffer a timeoutMs start (r # rs) w =
     (let w1 = date_now (clock r) (interfere a (others r) w);
          elapsed = clock r - start
      in if timeoutMs \<noteq> PosInf \<and> js_gt (Fin (of_int elapsed)) timeoutMs
         then (Some (Inl (timed_out h timeoutMs)), w1)
         else
           (case compareExchange a Unlocked Locked w1 of (old, w2) \<Rightarrow>
              if old = Unlocked then (Some (Inr (Handle buffer)), w2)
              else
                (case waitAsync a Locked (remaining timeoutMs elapsed) (outcome r) w2 of
                   (waitResult, w3) \<Rightarrow>
                     if waitResult = TimedOut then (Some (Inl (timed_out h timeoutMs)), w3)
                     else if waitResult = Interrupted
                       then (Some (Inl (MutexError ''Mutex wait was interrupted'')), w3)
                     else lock_loop h buffer a timeoutMs start rs w3)))"

text \<open>
  \<^verbatim>\<open>lock(buffer, timeoutMs = Infinity)\<close>. \<open>start\<close> is what the first \<^verbatim>\<open>Date.now()\<close>
  returns. A value that has passed both validations is an \<^verbatim>\<open>Int32Array\<close> and a number;
  on anything else the host's \<^verbatim>\<open>Atomics\<close> would raise its own error.
\<close>

definition lock ::
  "host \<Rightarrow> jsvalue \<Rightarrow> jsvalue \<Rightarrow> int \<Rightarrow> round list \<Rightarrow> world \<Rightarrow> (error + handle) option \<times> world"
where
  "lock h buffer timeoutArg start rs w =
     (let timeoutMs = default_timeout timeoutArg in
      case validateMutexBuffer buffer of
        Some e \<Rightarrow> (Some (Inl e), w)
      | None \<Rightarrow>
         (case validateTimeout timeoutMs of
            Some e \<Rightarrow> (Some (Inl e), w)
          | None \<Rightarrow>
             (case (buffer, timeoutMs) of
                (JInt32Array b, JNumber t) \<Rightarrow>
                  (case compareExchange (base b) Unlocked Locked (date_now start w) of
                     (old, w2) \<Rightarrow>
                       if old = Unlocked then (Some (Inr (Handle buffer)), w2)
                       else lock_loop h buffer (base b) t start rs w2)
              | _ \<Rightarrow> (Some (Inl TypeError), w))))"

text \<open>The \<^verbatim>\<open>while (true)\<close> of \<^verbatim>\<open>lockSync\<close>.\<close>

fun lockSync_loop ::
  "host \<Rightarrow> jsvalue \<Rightarrow> addr \<Rightarrow> jsnum \<Rightarrow> int \<Rightarrow> round list \<Rightarrow> world \<Rightarrow> (error + handle) option \<times> world"
where
  "lockSync_loop h buffer a timeoutMs start [] w = (None, w)"
| "lockSync_loop h buffer a timeoutMs start (r # rs) w =
     (let w1 = date_now (clock r) (interfere a (others r) w);
          elapsed = clock r - start
      in if timeoutMs \<noteq> PosInf \<and> js_gt (Fin (of_int elapsed)) timeoutMs
         then (Some (Inl (timed_out h timeoutMs)), w1)
         else
           (case compareExchange a Unlocked Locked w1 of (old, w2) \<Rightarrow>
              if old = Unlocked then (Some (Inr (Handle buffer)), w2)
              else
                (case atomics_wait a Locked (remaining timeoutMs elapsed) (outcome r) w2 of
                   (waitResult, w3) \<Rightarrow>
                     if waitResult = TimedOut then (Some (Inl (timed_out h timeoutMs)), w3)
                     else if waitResult = Interrupted
                       then (Some (Inl (MutexError ''Mutex wait was interrupted'')), w3)
                     else lockSync_loop h buffer a timeoutMs start rs w3)))"

definition lockSync ::
  "host \<Rightarrow> jsvalue \<Rightarrow> jsvalue \<Rightarrow> int \<Rightarrow> round list \<Rightarrow> world \<Rightarrow> (error + handle) option \<times> world"
where
  "lockSync h buffer timeoutArg start rs w =
     (let timeoutMs = default_timeout timeoutArg in
      case validateMutexBuffer buffer of
        Some e \<Rightarrow> (Some (Inl e), w)
      | None \<Rightarrow>
         (case validateTimeout timeoutMs of
            Some e \<Rightarrow> (Some (Inl e), w)
          | None \<Rightarrow>
             (case (buffer, timeoutMs) of
                (JInt32Array b, JNumber t) \<Rightarrow>
                  (case compareExchange (base b) Unlocked Locked (date_now start w) of
                     (old, w2) \<Rightarrow>
                       if old = Unlocked then (Some (Inr (Handle buffer)), w2)
                       else lockSync_loop h buffer (base b) t start rs w2)
              | _ \<Rightarrow> (Some (Inl TypeError), w))))"

text \<open>\<^verbatim>\<open>unlock(buffer, fromDispose = false)\<close>\<close>

definition unlock :: "jsvalue \<Rightarrow> bool \<Rightarrow> world \<Rightarrow> (error + unit) \<times> world" where
  "unlock buffer fromDispose w =
     (case validateMutexBuffer buffer of
        Some e \<Rightarrow> (Inl e, w)
      | None \<Rightarrow>
         (case buffer of
            JInt32Array b \<Rightarrow>
              (case compareExchange (base b) Locked Unlocked w of
                 (currentState, w1) \<Rightarrow>
                   if currentState \<noteq> Locked
                   then (if fromDispose then (Inr (), w1)
                         else (Inl (MutexError ''Cannot unlock mutex that is not locked''), w1))
                   else (Inr (), notify (base b) w1))
          | _ \<Rightarrow> (Inl TypeError, w)))"

text \<open>Calling the handle's \<^verbatim>\<open>[dispose]\<close> function.\<close>

fun dispose :: "handle \<Rightarrow> world \<Rightarrow> (error + unit) \<times> world" where
  "dispose (Handle buffer) w = unlock buffer True w"

subsection \<open>The mutex object\<close>

text \<open>
  The frozen object of \<^verbatim>\<open>createMutex\<close> and \<^verbatim>\<open>withMutex\<close>: its buffer, and methods that
  close over it.
\<close>

record mutex =
  buffer :: int32array

text \<open>
  \<^verbatim>\<open>new Int32Array(new SharedArrayBuffer(4))\<close> is one fresh cell;
  \<^verbatim>\<open>buffer[0] = LockStatus.Unlocked\<close>.
\<close>

definition createMutex :: "world \<Rightarrow> mutex \<times> world" where
  "createMutex w =
     (let a = fresh w;
          b = \<lparr>backing = SharedArrayBuffer, len = 1, base = a\<rparr>
      in (\<lparr>buffer = b\<rparr>, w\<lparr>heap := (heap w)(a := Unlocked), fresh := a + 1\<rparr>))"

definition mutex_lock ::
  "host \<Rightarrow> mutex \<Rightarrow> jsvalue \<Rightarrow> int \<Rightarrow> round list \<Rightarrow> world \<Rightarrow> (error + handle) option \<times> world"
where
  "mutex_lock h m timeoutMs = lock h (JInt32Array (buffer m)) timeoutMs"

definition mutex_lockSync ::
  "host \<Rightarrow> mutex \<Rightarrow> jsvalue \<Rightarrow> int \<Rightarrow> round list \<Rightarrow> world \<Rightarrow> (error + handle) option \<times> world"
where
  "mutex_lockSync h m timeoutMs = lockSync h (JInt32Array (buffer m)) timeoutMs"

definition mutex_unlock :: "mutex \<Rightarrow> world \<Rightarrow> (error + unit) \<times> world" where
  "mutex_unlock m = unlock (JInt32Array (buffer m)) False"

text \<open>\<^verbatim>\<open>isLocked: () => Atomics.load(buffer, 0) === LockStatus.Locked\<close>\<close>

definition isLocked :: "mutex \<Rightarrow> world \<Rightarrow> bool" where
  "isLocked m w = (load (base (buffer m)) w = Locked)"

subsection \<open>Running a function under the lock\<close>

text \<open>
  \<^verbatim>\<open>rapidGuard\<close> accepts as its mutex any truthy value whose \<^verbatim>\<open>lock\<close> property is a
  function, not only the objects of \<^verbatim>\<open>createMutex\<close> and \<^verbatim>\<open>withMutex\<close>. So the first
  argument is a value with no callable \<^verbatim>\<open>lock\<close> (every \<^typ>\<open>jsvalue\<close> is one), or an
  object with its \<^verbatim>\<open>lock\<close> method, whatever that method does. The method is called with
  the timeout; like the library's it meets the clock and the turns of the other
  participants; it does not return, or throws, or returns some value. Of that value
  \<^verbatim>\<open>rapidGuard\<close> uses the \<^verbatim>\<open>[dispose]\<close> property only: it is a function, which
  returns or throws, or it is not callable. A thrown value is an error of this library
  or of the host (\<open>Inl\<close>) or anything else (\<open>Inr\<close>).
\<close>

datatype 'x disposable =
    Disposable "world \<Rightarrow> ((error + 'x) + unit) \<times> world"
  | NotDisposable

type_synonym 'x lock_method =
  "jsvalue \<Rightarrow> int \<Rightarrow> round list \<Rightarrow> world \<Rightarrow> ((error + 'x) + 'x disposable) option \<times> world"

datatype 'x guard_target = NotAMutex jsvalue | LockObject "'x lock_method"

text \<open>The second argument is a function, which returns a value or throws one, or not.\<close>

datatype ('x, 'r) work = NotCallable jsvalue | Callable "world \<Rightarrow> ('x + 'r) \<times> world"

text \<open>
  \<^verbatim>\<open>lockHandle[dispose]()\<close>: calling what is not a function is a TypeError of the host.
\<close>

fun call_dispose :: "'x disposable \<Rightarrow> world \<Rightarrow> ((error + 'x) + unit) \<times> world" where
  "call_dispose (Disposable d) w = d w"
| "call_dispose NotDisposable w = (Inl (Inl TypeError), w)"

text \<open>
  \<^verbatim>\<open>rapidGuard(mutex, fn, timeoutMs = Infinity)\<close>. The result is \<open>Inr\<close> of what \<open>fn\<close>
  returned, \<open>Inl (Inr x)\<close> for a thrown \<open>x\<close>, and \<open>Inl (Inl e)\<close> for a thrown error of
  this library or of the host. An exception leaving the \<^verbatim>\<open>finally\<close> block replaces the
  outcome of the \<^verbatim>\<open>try\<close> block.
\<close>

definition rapidGuard ::
  "'x guard_target \<Rightarrow> ('x, 'r) work \<Rightarrow> jsvalue \<Rightarrow> int \<Rightarrow> round list \<Rightarrow> world
     \<Rightarrow> ((error + 'x) + 'r) option \<times> world"
where
  "rapidGuard target fn timeoutArg start rs w =
     (let timeoutMs = default_timeout timeoutArg in
      case target of
        NotAMutex v \<Rightarrow>
          (Some (Inl (Inl (MutexError ''Invalid mutex: must be a mutex object with lock method''))), w)
      | LockObject mutex_lock_method \<Rightarrow>
         (case fn of
            NotCallable v \<Rightarrow>
              (Some (Inl (Inl (MutexError ''Invalid function: must provide a function to execute''))), w)
          | Callable f \<Rightarrow>
             (case mutex_lock_method timeoutMs start rs w of
                (None, w1) \<Rightarrow> (None, w1)
              | (Some (Inl e), w1) \<Rightarrow> (Some (Inl e), w1)
              | (Some (Inr lockHandle), w1) \<Rightarrow>
                 (case f w1 of (res, w2) \<Rightarrow>
                    (case call_dispose lockHandle w2 of
                       (Inl e, w3) \<Rightarrow> (Some (Inl e), w3)
                     | (Inr u, w3) \<Rightarrow>
                        (Some (case res of Inl x \<Rightarrow> Inl (Inr x) | Inr y \<Rightarrow> Inr y), w3))))))"

text \<open>
  The library's handle and the library's mutex object, as \<^verbatim>\<open>rapidGuard\<close> sees them:
  \<^verbatim>\<open>{ [dispose]: () => unlock(buffer, true) }\<close> and
  \<^verbatim>\<open>{ lock: timeoutMs => lock(buffer, timeoutMs), ... }\<close>.
\<close>

definition handle_object :: "handle \<Rightarrow> 'x disposable" where
  "handle_object hdl =
     Disposable (\<lambda>w. case dispose hdl w of
                        (Inl e, w') \<Rightarrow> (Inl (Inl e), w')
                      | (Inr u, w') \<Rightarrow> (Inr (), w'))"

definition mutex_object :: "host \<Rightarrow> mutex \<Rightarrow> 'x guard_target" where
  "mutex_object h m =
     LockObject (\<lambda>timeoutMs start rs w.
       case mutex_lock h m timeoutMs start rs w of
         (None, w1) \<Rightarrow> (None, w1)
       | (Some (Inl e), w1) \<Rightarrow> (Some (Inl (Inl e)), w1)
       | (Some (Inr hdl), w1) \<Rightarrow> (Some (Inr (handle_object hdl)), w1))"

subsection \<open>A buffer from a string\<close>

text \<open>
  \<^verbatim>\<open>createBufferFromString\<close> fills a fresh \<^verbatim>\<open>SharedArrayBuffer\<close> through two views of
  it, an \<^verbatim>\<open>Int32Array\<close> and a \<^verbatim>\<open>Uint8Array\<close>, so the buffer is modelled by its bytes.
  The host is taken to be little-endian.
\<close>

definition int32_bytes :: "32 word \<Rightarrow> 8 word list" where
  "int32_bytes v = [ucast v, ucast (drop_bit 8 v), ucast (drop_bit 16 v), ucast (drop_bit 24 v)]"

text \<open>\<^verbatim>\<open>int32View[i] = v\<close>; an index outside the view is ignored.\<close>

definition int32_store :: "nat \<Rightarrow> 32 word \<Rightarrow> 8 word list \<Rightarrow> 8 word list" where
  "int32_store i v bs =
     (if 4 * i + 4 \<le> length bs then take (4 * i) bs @ int32_bytes v @ drop (4 * i + 4) bs else bs)"

text \<open>\<^verbatim>\<open>int32View[i]\<close>; \<open>None\<close> is \<^verbatim>\<open>undefined\<close>, outside the view.\<close>

definition int32_at :: "nat \<Rightarrow> 8 word list \<Rightarrow> 32 word option" where
  "int32_at i bs =
     (if 4 * i + 4 \<le> length bs then Some (word_rcat (rev (take 4 (drop (4 * i) bs)))) else None)"

text \<open>The length of the \<^verbatim>\<open>Int32Array\<close> over a buffer.\<close>

definition int32_length :: "8 word list \<Rightarrow> nat" where
  "int32_length bs = length bs div 4"

text \<open>\<^verbatim>\<open>uint8View.set(source, offset)\<close>: a RangeError when the source does not fit.\<close>

definition uint8_set :: "8 word list \<Rightarrow> nat \<Rightarrow> 8 word list \<Rightarrow> error + 8 word list" where
  "uint8_set source offset bs =
     (if offset + length source > length bs then Inl RangeError
      else Inr (take offset bs @ source @ drop (offset + length source) bs))"

text \<open>\<^verbatim>\<open>uint8View.fill(v, lo, hi)\<close>: the elements at \<open>lo \<le> i < hi\<close> become \<open>v\<close>.\<close>

definition uint8_fill :: "8 word \<Rightarrow> nat \<Rightarrow> nat \<Rightarrow> 8 word list \<Rightarrow> 8 word list" where
  "uint8_fill v lo hi bs =
     map (\<lambda>(i, b). if lo \<le> i \<and> i < hi then v else b) (zip [0..<length bs] bs)"

text \<open>
  \<^verbatim>\<open>createBufferFromString(input)\<close>. The result is the content of the buffer that the
  returned \<^verbatim>\<open>Int32Array\<close> views. \<^verbatim>\<open>!input\<close> holds of a string only when it is empty.
\<close>

definition createBufferFromString :: "host \<Rightarrow> jsvalue \<Rightarrow> error + 8 word list" where
  "createBufferFromString h input =
     (case input of
        JString s \<Rightarrow>
          if s = [] then Inl (MutexError ''Invalid input: must be a non-empty string'')
          else
            (let bytes = utf8_encode h s;
                 headerSize = 4;
                 totalSize = headerSize + length bytes;
                 alignedSize = nat \<lceil>real totalSize / 4\<rceil> * 4;
                 buffer0 = replicate alignedSize 0;
                 buffer1 = int32_store 0 Unlocked buffer0
             in case uint8_set bytes headerSize buffer1 of
                  Inl e \<Rightarrow> Inl e
                | Inr buffer2 \<Rightarrow>
                    Inr (if alignedSize > totalSize
                         then uint8_fill 0 totalSize alignedSize buffer2
                         else buffer2))
      | _ \<Rightarrow> Inl (MutexError ''Invalid input: must be a non-empty string''))"

subsection \<open>Notions used to state the properties\<close>

text \<open>The world right after a successful first compare-and-swap.\<close>

definition acquired :: "addr \<Rightarrow> int \<Rightarrow> world \<Rightarrow> world" where
  "acquired a start w =
     w\<lparr>heap := (heap w)(a := Locked),
       log := log w @ [DateNow start, CompareExchange a Unlocked Locked Unlocked]\<rparr>"


text \<open>A compare-and-swap that found something else than it expected has stored nothing.\<close>

fun stores_nothing :: "event \<Rightarrow> bool" where
  "stores_nothing (CompareExchange a expected replacement old) = (old \<noteq> expected)"
| "stores_nothing _ = True"

fun is_wait :: "event \<Rightarrow> bool" where
  "is_wait (Wait a v t r) = True"
| "is_wait _ = False"

fun is_notify :: "event \<Rightarrow> bool" where
  "is_notify (Notify a) = True"
| "is_notify _ = False"

text \<open>The deadline test at the top of the loop, for the clock value \<open>c\<close>.\<close>

definition deadline_passed :: "jsnum \<Rightarrow> int \<Rightarrow> int \<Rightarrow> bool" where
  "deadline_passed timeoutMs start c =
     (timeoutMs \<noteq> PosInf \<and> js_gt (Fin (of_int (c - start))) timeoutMs)"

text \<open>
  What follows, in the log of a run with result \<open>res\<close>, a wake-up from a wait on the cell
  \<open>a\<close>: nothing, and the run has not returned; or a clock value past the deadline, nothing
  more, and the run has failed with the timeout error; or a clock value within the
  deadline and then the compare-and-swap of that cell from Unlocked to Locked.
\<close>

fun after_wake ::
  "host \<Rightarrow> jsnum \<Rightarrow> int \<Rightarrow> (error + handle) option \<Rightarrow> addr \<Rightarrow> event list \<Rightarrow> bool"
where
  "after_wake h t start res a [] = (res = None)"
| "after_wake h t start res a (DateNow c # es) =
     (if deadline_passed t start c then es = [] \<and> res = Some (Inl (timed_out h t))
      else (case es of
              CompareExchange a' expected replacement old # es' \<Rightarrow>
                a' = a \<and> expected = Unlocked \<and> replacement = Locked
            | _ \<Rightarrow> False))"
| "after_wake h t start res a (e # es) = False"

text \<open>Every wait of the log that reported 'ok' or 'not-equal' is followed that way.\<close>

fun wake_rule ::
  "host \<Rightarrow> jsnum \<Rightarrow> int \<Rightarrow> (error + handle) option \<Rightarrow> event list \<Rightarrow> bool"
where
  "wake_rule h t start res [] = True"
| "wake_rule h t start res (Wait a v tm r # es) =
     ((if r = Ok \<or> r = NotEqual then after_wake h t start res a es else True)
      \<and> wake_rule h t start res es)"
| "wake_rule h t start res (e # es) = wake_rule h t start res es"

text \<open>
  The rule as the specification words it: after such a wake-up the next thing done to the
  buffer is the compare-and-swap of the lock word. Reading the clock is not an operation
  on the buffer.
\<close>

fun is_clock :: "event \<Rightarrow> bool" where
  "is_clock (DateNow c) = True"
| "is_clock _ = False"

fun cas_follows_wake :: "event list \<Rightarrow> bool" where
  "cas_follows_wake [] = True"
| "cas_follows_wake (Wait a v tm r # es) =
     ((if r = Ok \<or> r = NotEqual
       then (case dropWhile is_clock es of
               CompareExchange a' expected replacement old # es' \<Rightarrow>
                 a' = a \<and> expected = Unlocked \<and> replacement = Locked
             | _ \<Rightarrow> False)
       else True)
      \<and> cas_follows_wake es)"
| "cas_follows_wake (e # es) = cas_follows_wake es"

text \<open>
  The two causes of a timeout failure, as host calls: the clock reading of a deadline
  test that fires, and a wait that reports 'timed-out'. A run has failed by timeout when
  the last host call it made is one of them.
\<close>

fun timeout_event :: "jsnum \<Rightarrow> int \<Rightarrow> event \<Rightarrow> bool" where
  "timeout_event t start (DateNow c) = deadline_passed t start c"
| "timeout_event t start (Wait a v tm r) = (r = TimedOut)"
| "timeout_event t start _ = False"

definition failed_by_timeout :: "jsnum \<Rightarrow> int \<Rightarrow> event list \<Rightarrow> bool" where
  "failed_by_timeout t start es = (es \<noteq> [] \<and> timeout_event t start (last es))"

subsection \<open>A host and a world for the examples\<close>

definition digit :: "nat \<Rightarrow> char" where
  "digit n = ''0123456789'' ! (n mod 10)"

function decimal :: "nat \<Rightarrow> string" where
  "decimal n = (if n < 10 then [digit n] else decimal (n div 10) @ [digit n])"
  by pat_completeness auto
termination
  by (relation "measure id") auto

text \<open>
  Number-to-string conversion as far as the examples need it: NaN, the infinities, and
  the integers, on which it writes the decimal digits as the host does below \<open>10^21\<close>.
  The digits after the decimal point of another number are not written.
\<close>

fun integer_string :: "jsnum \<Rightarrow> string" where
  "integer_string NaN = ''NaN''"
| "integer_string PosInf = ''Infinity''"
| "integer_string NegInf = ''-Infinity''"
| "integer_string (Fin x) = (if x < 0 then ''-'' else []) @ decimal (nat \<lfloor>\<bar>x\<bar>\<rfloor>)"

text \<open>\<^verbatim>\<open>TextEncoder\<close> on code units below 128 writes one byte for each.\<close>

definition example_host :: host where
  "example_host = \<lparr>number_to_string = integer_string, utf8_encode = map ucast\<rparr>"

definition boot :: world where
  "boot = \<lparr>heap = (\<lambda>a. 0), fresh = 0, log = []\<rparr>"

text \<open>
  A scenario: a mutex is created; a first participant acquires it and releases it through
  its handle; a second one acquires it; the first handle is released once more.
\<close>

definition ex_mutex :: mutex where
  "ex_mutex = fst (createMutex boot)"

definition ex_created :: world where
  "ex_created = snd (createMutex boot)"

definition ex_handle :: handle where
  "ex_handle = Handle (JInt32Array (buffer ex_mutex))"

definition ex_held :: world where
  "ex_held = snd (mutex_lock example_host ex_mutex JUndefined 0 [] ex_created)"

definition ex_released :: world where
  "ex_released = snd (dispose ex_handle ex_held)"

definition ex_held_again :: world where
  "ex_held_again = snd (mutex_lockSync example_host ex_mutex JUndefined 5 [] ex_released)"

definition ex_released_twice :: world where
  "ex_released_twice = snd (dispose ex_handle ex_held_again)"

text \<open>
  Two turns for a waiter with a timeout of 10 ms that started at time 0: in the first the
  holder still has the lock and the wait ends with 'ok'; by the second the holder has
  stored Unlocked and the clock shows 11.
\<close>

definition ex_late_wake :: "round list" where
  "ex_late_wake =
     [\<lparr>others = None, clock = 0, outcome = Ok\<rparr>,
      \<lparr>others = Some Unlocked, clock = 11, outcome = Ok\<rparr>]"

text \<open>The same, but the clock shows 5 in the second turn.\<close>

definition ex_timely_wake :: "round list" where
  "ex_timely_wake =
     [\<lparr>others = None, clock = 0, outcome = Ok\<rparr>,
      \<lparr>others = Some Unlocked, clock = 5, outcome = Ok\<rparr>]"

text \<open>One turn in which the holder keeps the lock and the wait reports 'timed-out'.\<close>

definition ex_wait_times_out :: "round list" where
  "ex_wait_times_out = [\<lparr>others = None, clock = 3, outcome = TimedOut\<rparr>]"

text \<open>A unit of work that throws.\<close>

definition ex_failing_work :: "(string, nat) work" where
  "ex_failing_work = Callable (\<lambda>w. (Inl ''Test error'', w))"

text \<open>A unit of work that returns 42.\<close>

definition ex_returning_work :: "(string, nat) work" where
  "ex_returning_work = Callable (\<lambda>w. (Inr 42, w))"

text \<open>
  A foreign mutex-like object:
  \<^verbatim>\<open>{ lock: async () => ({ [dispose]: () => { throw 'release failed' } }) }\<close>, and one
  whose \<^verbatim>\<open>lock\<close> returns an object with no \<^verbatim>\<open>[dispose]\<close>.
\<close>

definition ex_throwing_release :: "string guard_target" where
  "ex_throwing_release =
     LockObject (\<lambda>timeoutMs start rs w.
       (Some (Inr (Disposable (\<lambda>w'. (Inl (Inr ''release failed''), w')))), w))"

definition ex_no_release :: "string guard_target" where
  "ex_no_release = LockObject (\<lambda>timeoutMs start rs w. (Some (Inr NotDisposable), w))"

section \<open>Properties\<close>

subsection \<open>What validation establishes\<close>

lemma valid_buffer_shape:
  "validateMutexBuffer v = None \<Longrightarrow>
     \<exists>b. v = JInt32Array b \<and> 1 \<le> len b \<and> backing b = SharedArrayBuffer"
  by (cases v) (auto split: if_splits)

lemma valid_timeout_shape:
  "validateTimeout v = None \<Longrightarrow> \<exists>t. v = JNumber t \<and> (t = PosInf \<or> \<not> js_lt t (Fin 0))"
  by (cases v) (auto split: if_splits)

lemma number_timeout: "default_timeout (JNumber t) = JNumber t"
  by (simp add: default_timeout_def)

lemma undefined_timeout_valid: "validateTimeout (default_timeout JUndefined) = None"
  by (simp add: default_timeout_def)

lemma zero_timeout_valid: "validateTimeout (default_timeout (JNumber (Fin 0))) = None"
  by (simp add: default_timeout_def)

text \<open>
  A timeout that is not a number, or a number below zero, is refused before the clock is
  read and before the buffer is touched.
\<close>

lemma invalid_timeout_rejected:
  assumes "validateMutexBuffer buf = None"
    and "default_timeout t \<noteq> JNumber PosInf"
    and "\<forall>x. default_timeout t = JNumber x \<longrightarrow> js_lt x (Fin 0)"
  shows "lock h buf t start rs w =
           (Some (Inl (MutexError ''Timeout must be a non-negative number or Infinity'')), w)
       \<and> lockSync h buf t start rs w =
           (Some (Inl (MutexError ''Timeout must be a non-negative number or Infinity'')), w)"
proof -
  have "validateTimeout (default_timeout t) =
          Some (MutexError ''Timeout must be a non-negative number or Infinity'')"
    using assms(2,3) by (cases "default_timeout t") auto
  then show ?thesis using assms(1) by (simp add: lock_def lockSync_def)
qed

subsection \<open>The log\<close>

lemma emitted_append: "log w' = log w @ es \<Longrightarrow> emitted w w' = es"
  by (simp add: emitted_def)

lemma emitted_same: "emitted w w = []"
  by (simp add: emitted_def)

lemma emitted_acquired:
  "emitted w (acquired a start w) = [DateNow start, CompareExchange a Unlocked Locked Unlocked]"
  by (simp add: emitted_def acquired_def)

subsection \<open>The two forms of acquisition are one algorithm\<close>

lemma lockSync_loop_eq: "lockSync_loop h buf a t start rs w = lock_loop h buf a t start rs w"
  by (induction rs arbitrary: w t)
     (simp_all add: atomics_wait_def waitAsync_def compareExchange_def Let_def)

lemma lockSync_eq: "lockSync h buf targ start rs w = lock h buf targ start rs w"
  by (simp add: lockSync_def lock_def lockSync_loop_eq compareExchange_def Let_def
        split: option.splits jsvalue.splits)


subsection \<open>The first compare-and-swap\<close>

lemma lock_fast:
  assumes "validateMutexBuffer (JInt32Array b) = None"
    and "validateTimeout (default_timeout t) = None"
    and "heap w (base b) = Unlocked"
  shows "lock h (JInt32Array b) t start rs w =
           (Some (Inr (Handle (JInt32Array b))), acquired (base b) start w)"
proof -
  obtain x where x: "default_timeout t = JNumber x"
    using valid_timeout_shape [OF assms(2)] by blast
  show ?thesis
    using assms x by (simp add: lock_def compareExchange_def date_now_def acquired_def Let_def)
qed

lemma lockSync_fast:
  assumes "validateMutexBuffer (JInt32Array b) = None"
    and "validateTimeout (default_timeout t) = None"
    and "heap w (base b) = Unlocked"
  shows "lockSync h (JInt32Array b) t start rs w =
           (Some (Inr (Handle (JInt32Array b))), acquired (base b) start w)"
  using lock_fast [OF assms] by (simp add: lockSync_eq)

text \<open>What \<open>lock\<close> does once its arguments have passed validation.\<close>

lemma lock_validated:
  assumes "validateMutexBuffer (JInt32Array b) = None"
    and "default_timeout targ = JNumber t"
    and "validateTimeout (JNumber t) = None"
  shows "lock h (JInt32Array b) targ start rs w =
     (if heap w (base b) = Unlocked
      then (Some (Inr (Handle (JInt32Array b))), acquired (base b) start w)
      else lock_loop h (JInt32Array b) (base b) t start rs
             (w\<lparr>log := log w @
                  [DateNow start, CompareExchange (base b) Unlocked Locked (heap w (base b))]\<rparr>))"
  using assms by (simp add: lock_def compareExchange_def date_now_def acquired_def Let_def)

lemma lock_rejected:
  assumes "validateMutexBuffer buf = Some e \<or>
           (validateMutexBuffer buf = None \<and> validateTimeout (default_timeout targ) = Some e)"
  shows "lock h buf targ start rs w = (Some (Inl e), w)"
  using assms by (auto simp: lock_def)

text \<open>The three ways a call of \<open>lock\<close> can go.\<close>

lemma lock_cases:
  obtains (invalid) e where "lock h buf targ start rs w = (Some (Inl e), w)"
      "validateMutexBuffer buf = Some e \<or> validateTimeout (default_timeout targ) = Some e"
  | (fast) b t where "buf = JInt32Array b" "default_timeout targ = JNumber t"
      "validateMutexBuffer buf = None" "validateTimeout (JNumber t) = None"
      "heap w (base b) = Unlocked"
      "lock h buf targ start rs w = (Some (Inr (Handle buf)), acquired (base b) start w)"
  | (slow) b t where "buf = JInt32Array b" "default_timeout targ = JNumber t"
      "validateMutexBuffer buf = None" "validateTimeout (JNumber t) = None"
      "heap w (base b) \<noteq> Unlocked"
      "lock h buf targ start rs w = lock_loop h buf (base b) t start rs
         (w\<lparr>log := log w @
              [DateNow start, CompareExchange (base b) Unlocked Locked (heap w (base b))]\<rparr>)"
proof (cases "validateMutexBuffer buf")
  case (Some e)
  then show ?thesis using invalid lock_rejected by blast
next
  case None
  then obtain b where b: "buf = JInt32Array b" using valid_buffer_shape by blast
  show ?thesis
  proof (cases "validateTimeout (default_timeout targ)")
    case (Some e)
    then show ?thesis using invalid None lock_rejected by blast
  next
    case vt: None
    then obtain t where t: "default_timeout targ = JNumber t"
      using valid_timeout_shape by blast
    have vt': "validateTimeout (JNumber t) = None" using vt t by simp
    have vb: "validateMutexBuffer (JInt32Array b) = None" using None b by simp
    show ?thesis
    proof (cases "heap w (base b) = Unlocked")
      case True
      then show ?thesis using fast [OF b t None vt'] lock_validated [OF vb t vt'] b by simp
    next
      case False
      then show ?thesis using slow [OF b t None vt'] lock_validated [OF vb t vt'] b by simp
    qed
  qed
qed

subsection \<open>Release\<close>

lemma unlock_valid:
  assumes "validateMutexBuffer (JInt32Array b) = None"
  shows "unlock (JInt32Array b) d w =
     (if heap w (base b) = Locked
      then (Inr (), w\<lparr>heap := (heap w)(base b := Unlocked),
                      log := log w @ [CompareExchange (base b) Locked Unlocked Locked,
                                      Notify (base b)]\<rparr>)
      else (if d then Inr () else Inl (MutexError ''Cannot unlock mutex that is not locked''),
            w\<lparr>log := log w @ [CompareExchange (base b) Locked Unlocked (heap w (base b))]\<rparr>))"
  using assms by (simp add: unlock_def compareExchange_def notify_def Let_def)

lemma createMutex_valid:
  "createMutex w = (m, w1) \<Longrightarrow>
     validateMutexBuffer (JInt32Array (buffer m)) = None
     \<and> heap w1 (base (buffer m)) = Unlocked \<and> base (buffer m) = fresh w"
  by (auto simp: createMutex_def Let_def)

subsection \<open>The loop\<close>

text \<open>
  The events one call of the loop adds: they start as after a wake-up, every wake-up among
  them is followed as \<open>wake_rule\<close> says, none is a notification, and in a run that fails
  no compare-and-swap has stored.
\<close>

lemma lock_loop_log:
  "lock_loop h buf a t start rs w = (res, w') \<Longrightarrow>
     \<exists>es. log w' = log w @ es \<and> after_wake h t start res a es \<and> wake_rule h t start res es
        \<and> (\<forall>e \<in> set es. \<not> is_notify e)
        \<and> ((\<exists>e. res = Some (Inl e)) \<longrightarrow> (\<forall>e \<in> set es. stores_nothing e))"
proof (induction rs arbitrary: w)
  case Nil
  then show ?case by simp
next
  case (Cons r rs)
  let ?w1 = "date_now (clock r) (interfere a (others r) w)"
  let ?turn = "[DateNow (clock r), CompareExchange a Unlocked Locked (heap ?w1 a),
                Wait a Locked (remaining t (clock r - start)) (outcome r)]"
  have l1: "log ?w1 = log w @ [DateNow (clock r)]"
    by (simp add: date_now_def interfere_def split: option.splits)
  show ?case
  proof (cases "deadline_passed t start (clock r)")
    case True
    then have "res = Some (Inl (timed_out h t))" "w' = ?w1"
      using Cons.prems by (simp_all add: deadline_passed_def Let_def)
    then show ?thesis using l1 True by simp
  next
    case nd: False
    show ?thesis
    proof (cases "heap ?w1 a = Unlocked")
      case True
      then have "res = Some (Inr (Handle buf))"
        "log w' = log w @ [DateNow (clock r), CompareExchange a Unlocked Locked Unlocked]"
        using Cons.prems nd l1 by (auto simp: deadline_passed_def Let_def compareExchange_def)
      then show ?thesis using nd by simp
    next
      case busy: False
      define w3 where
        "w3 = snd (waitAsync a Locked (remaining t (clock r - start)) (outcome r)
                     (snd (compareExchange a Unlocked Locked ?w1)))"
      have l3: "log w3 = log w @ ?turn"
        by (simp add: w3_def waitAsync_def compareExchange_def Let_def l1)
      show ?thesis
      proof (cases "outcome r = TimedOut \<or> outcome r = Interrupted")
        case True
        then have "(\<exists>e. res = Some (Inl e)) \<and> w' = w3"
          using Cons.prems nd busy
          by (auto simp: deadline_passed_def Let_def compareExchange_def waitAsync_def w3_def)
        then show ?thesis using l3 nd busy True by auto
      next
        case False
        then have rec: "lock_loop h buf a t start rs w3 = (res, w')"
          using Cons.prems nd busy
          by (auto simp: deadline_passed_def Let_def compareExchange_def waitAsync_def w3_def)
        from Cons.IH [OF rec] obtain es where es: "log w' = log w3 @ es"
          "after_wake h t start res a es" "wake_rule h t start res es"
          "\<forall>e \<in> set es. \<not> is_notify e"
          "(\<exists>e. res = Some (Inl e)) \<longrightarrow> (\<forall>e \<in> set es. stores_nothing e)" by blast
        have "log w' = log w @ (?turn @ es)"
          using es(1) l3 by simp
        moreover have "after_wake h t start res a (?turn @ es)"
          using nd by simp
        moreover have "wake_rule h t start res (?turn @ es)"
          using es(2,3) by simp
        ultimately show ?thesis
          using es(4,5) busy by (intro exI conjI) (assumption | auto)+
      qed
    qed
  qed
qed



lemma lock_loop_errors:
  "lock_loop h buf a t start rs w = (Some (Inl e), w') \<Longrightarrow>
     e = timed_out h t \<or> e = MutexError ''Mutex wait was interrupted''"
proof (induction rs arbitrary: w)
  case Nil
  then show ?case by simp
next
  case (Cons r rs)
  then show ?case
    by (auto simp: Let_def compareExchange_def waitAsync_def split: if_splits)
qed

lemma lock_loop_handle:
  "lock_loop h buf a t start rs w = (Some (Inr hdl), w') \<Longrightarrow> hdl = Handle buf"
proof (induction rs arbitrary: w)
  case Nil
  then show ?case by simp
next
  case (Cons r rs)
  then show ?case
    by (auto simp: Let_def compareExchange_def waitAsync_def split: if_splits)
qed

text \<open>A handle that \<open>lock\<close> returns is the handle of a buffer that has passed validation.\<close>

lemma lock_handle:
  assumes "lock h buf targ start rs w = (Some (Inr hdl), w1)"
  shows "validateMutexBuffer buf = None \<and> hdl = Handle buf"
proof (cases rule: lock_cases [where h = h and buf = buf and targ = targ
          and start = start and rs = rs and w = w])
  case (invalid e)
  then show ?thesis using assms by simp
next
  case (fast b t)
  then show ?thesis using assms by simp
next
  case (slow b t)
  then show ?thesis using assms lock_loop_handle by metis
qed

subsection \<open>Error messages\<close>

lemma timed_out_message:
  "message (timed_out h t) =
     ''Mutex lock acquisition timed out after '' @ number_to_string h t @ ''ms''"
  by (simp add: timed_out_def)

text \<open>
  A failed run of the loop has made a host call, and its last one names the failure: a
  deadline test that fired or a wait that reported 'timed-out', with the timeout error;
  or a wait that reported 'interrupted', with the interruption error.
\<close>

lemma lock_loop_cause:
  "lock_loop h buf a t start rs w = (Some (Inl e), w') \<Longrightarrow>
     \<exists>es. log w' = log w @ es \<and> es \<noteq> []
        \<and> ((timeout_event t start (last es) \<and> e = timed_out h t)
           \<or> ((\<exists>c v tm. last es = Wait c v tm Interrupted)
               \<and> e = MutexError ''Mutex wait was interrupted''))"
proof (induction rs arbitrary: w)
  case Nil
  then show ?case by simp
next
  case (Cons r rs)
  let ?w1 = "date_now (clock r) (interfere a (others r) w)"
  let ?turn = "[DateNow (clock r), CompareExchange a Unlocked Locked (heap ?w1 a),
                Wait a Locked (remaining t (clock r - start)) (outcome r)]"
  have l1: "log ?w1 = log w @ [DateNow (clock r)]"
    by (simp add: date_now_def interfere_def split: option.splits)
  show ?case
  proof (cases "deadline_passed t start (clock r)")
    case True
    then have "e = timed_out h t" "w' = ?w1"
      using Cons.prems by (simp_all add: deadline_passed_def Let_def)
    then show ?thesis using l1 True by simp
  next
    case nd: False
    then have busy: "heap ?w1 a \<noteq> Unlocked"
      using Cons.prems by (auto simp: deadline_passed_def Let_def compareExchange_def)
    define w3 where
      "w3 = snd (waitAsync a Locked (remaining t (clock r - start)) (outcome r)
                   (snd (compareExchange a Unlocked Locked ?w1)))"
    have l3: "log w3 = log w @ ?turn"
      by (simp add: w3_def waitAsync_def compareExchange_def Let_def l1)
    show ?thesis
    proof (cases "outcome r = TimedOut \<or> outcome r = Interrupted")
      case True
      then have "w' = w3"
        and "outcome r = TimedOut \<longrightarrow> e = timed_out h t"
        and "outcome r = Interrupted \<longrightarrow> e = MutexError ''Mutex wait was interrupted''"
        using Cons.prems nd busy
        by (auto simp: deadline_passed_def Let_def compareExchange_def waitAsync_def w3_def)
      then show ?thesis using l3 True by (intro exI [of _ ?turn]) auto
    next
      case False
      then have rec: "lock_loop h buf a t start rs w3 = (Some (Inl e), w')"
        using Cons.prems nd busy
        by (auto simp: deadline_passed_def Let_def compareExchange_def waitAsync_def w3_def)
      from Cons.IH [OF rec] obtain es where es: "log w' = log w3 @ es" "es \<noteq> []"
        "(timeout_event t start (last es) \<and> e = timed_out h t)
           \<or> ((\<exists>c v tm. last es = Wait c v tm Interrupted)
               \<and> e = MutexError ''Mutex wait was interrupted'')" by blast
      have "log w' = log w @ (?turn @ es)" using es(1) l3 by simp
      moreover have "last (?turn @ es) = last es" using es(2) by simp
      ultimately show ?thesis using es(2,3) by (intro exI [of _ "?turn @ es"]) auto
    qed
  qed
qed

text \<open>The loop returns a handle only from a compare-and-swap that has stored Locked.\<close>

lemma lock_loop_locked:
  "lock_loop h buf a t start rs w = (Some (Inr hdl), w') \<Longrightarrow> heap w' a = Locked"
proof (induction rs arbitrary: w)
  case Nil
  then show ?case by simp
next
  case (Cons r rs)
  then show ?case
    by (auto simp: Let_def compareExchange_def waitAsync_def split: if_splits)
qed

lemma lock_locked:
  assumes "lock h (JInt32Array b) targ start rs w = (Some (Inr hdl), w1)"
  shows "heap w1 (base b) = Locked"
proof (cases rule: lock_cases [where h = h and buf = "JInt32Array b" and targ = targ
          and start = start and rs = rs and w = w])
  case (invalid e)
  then show ?thesis using assms by simp
next
  case (fast b' t)
  then show ?thesis using assms by (auto simp: acquired_def)
next
  case (slow b' t)
  then show ?thesis using assms lock_loop_locked by auto
qed

subsection \<open>The bytes of a buffer made from a string\<close>

lemma aligned_size:
  fixes n :: nat
  shows "nat \<lceil>real n / 4\<rceil> * 4 = (n + 3) div 4 * 4"
proof -
  have "\<lceil>real n / 4\<rceil> = \<lceil>of_int (int n) / (of_int 4 :: real)\<rceil>" by simp
  also have "\<dots> = - (- int n div 4)" by (rule ceiling_divide_eq_div)
  finally have "nat \<lceil>real n / 4\<rceil> = nat (- (- int n div 4))" by simp
  also have "\<dots> = (n + 3) div 4" by linarith
  finally show ?thesis by simp
qed

lemma aligned_bounds:
  fixes n :: nat
  defines "A \<equiv> nat \<lceil>real n / 4\<rceil> * 4"
  shows "n \<le> A" "A < n + 4" "A mod 4 = 0"
  unfolding A_def aligned_size by presburger+

lemma int32_bytes_Unlocked: "int32_bytes Unlocked = [0, 0, 0, 0]"
  by (simp add: int32_bytes_def Unlocked_def)

lemma rcat_zero: "word_rcat [0, 0, 0, 0 :: 8 word] = (0 :: 32 word)"
  by (simp add: word_rcat_def)

lemma uint8_fill_length: "length (uint8_fill v lo hi bs) = length bs"
  by (simp add: uint8_fill_def)

lemma uint8_fill_nth:
  "i < length bs \<Longrightarrow> uint8_fill v lo hi bs ! i = (if lo \<le> i \<and> i < hi then v else bs ! i)"
  by (simp add: uint8_fill_def)

text \<open>Filling a range that already holds the value changes nothing.\<close>

lemma uint8_fill_idle:
  assumes "\<forall>i. lo \<le> i \<and> i < hi \<and> i < length bs \<longrightarrow> bs ! i = v"
  shows "uint8_fill v lo hi bs = bs"
  using assms by (intro nth_equalityI) (auto simp: uint8_fill_length uint8_fill_nth)

lemma string_buffer:
  fixes h :: host and s :: jsstring
  assumes "s \<noteq> []"
  defines "bytes \<equiv> utf8_encode h s"
  defines "A \<equiv> nat \<lceil>real (4 + length bytes) / 4\<rceil> * 4"
  shows "createBufferFromString h (JString s) =
           Inr (replicate 4 0 @ bytes @ replicate (A - (4 + length bytes)) 0)"
proof -
  have le: "4 + length bytes \<le> A" unfolding A_def by (rule aligned_bounds)
  let ?b0 = "replicate A (0 :: 8 word)"
  have b1: "int32_store 0 Unlocked ?b0 = ?b0"
  proof -
    have "A = 4 + (A - 4)" using le by simp
    then have "?b0 = replicate 4 0 @ replicate (A - 4) 0"
      by (metis replicate_add)
    moreover have "int32_store 0 Unlocked ?b0 = [0, 0, 0, 0] @ replicate (A - 4) 0"
      using le by (simp add: int32_store_def int32_bytes_Unlocked)
    ultimately show ?thesis by (simp add: numeral_eq_Suc)
  qed
  let ?b2 = "replicate 4 0 @ bytes @ replicate (A - (4 + length bytes)) (0 :: 8 word)"
  have b2: "uint8_set bytes 4 ?b0 = Inr ?b2"
    using le by (simp add: uint8_set_def min_def)
  have b3: "uint8_fill 0 (4 + length bytes) A ?b2 = ?b2"
    by (rule uint8_fill_idle) (auto simp: nth_append)
  have "createBufferFromString h (JString s) =
      (case uint8_set bytes 4 (int32_store 0 Unlocked ?b0) of
         Inl e \<Rightarrow> Inl e
       | Inr buffer2 \<Rightarrow>
           Inr (if A > 4 + length bytes then uint8_fill 0 (4 + length bytes) A buffer2
                else buffer2))"
    unfolding createBufferFromString_def bytes_def A_def using assms(1) by (simp add: Let_def)
  also have "\<dots> = Inr ?b2"
    using le by (simp add: b1 b2 b3)
  finally show ?thesis .
qed

subsection \<open>The scenario, step by step\<close>

declare decimal.simps [simp del]

lemmas run_defs = lock_def lockSync_def unlock_def compareExchange_def date_now_def notify_def
  waitAsync_def atomics_wait_def interfere_def remaining_def timed_out_def default_timeout_def
  js_gt_def Let_def mutex_lock_def mutex_lockSync_def mutex_unlock_def isLocked_def load_def
  emitted_def acquired_def Locked_def Unlocked_def

lemma decimal_10: "decimal 10 = ''10''"
  by (simp add: decimal.simps [of 10] decimal.simps [of "Suc 0"] digit_def)

lemma ten_ms: "number_to_string example_host (Fin 10) = ''10''"
  by (simp add: example_host_def decimal_10)

lemma ex_encode: "utf8_encode example_host [120] = [120]"
  by (simp add: example_host_def)

lemma ex_create: "createMutex boot = (ex_mutex, ex_created)"
  by (simp add: ex_mutex_def ex_created_def)

lemma ex_mutex_eq:
  "ex_mutex = \<lparr>buffer = \<lparr>backing = SharedArrayBuffer, len = 1, base = 0\<rparr>\<rparr>"
  by (simp add: ex_mutex_def createMutex_def boot_def Let_def)

lemma ex_handle_eq:
  "ex_handle = Handle (JInt32Array \<lparr>backing = SharedArrayBuffer, len = 1, base = 0\<rparr>)"
  by (simp add: ex_handle_def ex_mutex_eq)

lemma ex_created_eq:
  "ex_created = \<lparr>heap = (\<lambda>a. 0)(0 := Unlocked), fresh = 1, log = []\<rparr>"
  by (simp add: ex_created_def createMutex_def boot_def Let_def)

lemma ex_held_eq:
  "ex_held = \<lparr>heap = (\<lambda>a. 0)(0 := Locked), fresh = 1,
              log = [DateNow 0, CompareExchange 0 Unlocked Locked Unlocked]\<rparr>"
  by (simp add: ex_held_def ex_created_eq ex_mutex_eq run_defs)

lemma ex_released_eq:
  "ex_released = \<lparr>heap = (\<lambda>a. 0)(0 := Unlocked), fresh = 1,
              log = [DateNow 0, CompareExchange 0 Unlocked Locked Unlocked,
                     CompareExchange 0 Locked Unlocked Locked, Notify 0]\<rparr>"
  by (simp add: ex_released_def ex_handle_eq ex_held_eq run_defs)

lemma ex_held_again_eq:
  "ex_held_again = \<lparr>heap = (\<lambda>a. 0)(0 := Locked), fresh = 1,
              log = [DateNow 0, CompareExchange 0 Unlocked Locked Unlocked,
                     CompareExchange 0 Locked Unlocked Locked, Notify 0,
                     DateNow 5, CompareExchange 0 Unlocked Locked Unlocked]\<rparr>"
  by (simp add: ex_held_again_def ex_released_eq ex_mutex_eq run_defs)

lemma ex_released_twice_eq:
  "ex_released_twice = \<lparr>heap = (\<lambda>a. 0)(0 := Unlocked), fresh = 1,
              log = [DateNow 0, CompareExchange 0 Unlocked Locked Unlocked,
                     CompareExchange 0 Locked Unlocked Locked, Notify 0,
                     DateNow 5, CompareExchange 0 Unlocked Locked Unlocked,
                     CompareExchange 0 Locked Unlocked Locked, Notify 0]\<rparr>"
  by (simp add: ex_released_twice_def ex_handle_eq ex_held_again_eq run_defs)

lemmas ex_eqs = ex_mutex_eq ex_handle_eq ex_created_eq ex_held_eq ex_released_eq
  ex_held_again_eq ex_released_twice_eq

lemma ex_buffer_valid: "validateMutexBuffer (JInt32Array (buffer ex_mutex)) = None"
  by (simp add: ex_mutex_eq)

lemma ex_created_free: "heap ex_created (base (buffer ex_mutex)) = Unlocked"
  by (simp add: ex_eqs)

lemma ex_first_lock:
  "mutex_lock example_host ex_mutex (default_timeout JUndefined) 0 [] ex_created =
     (Some (Inr ex_handle), ex_held)"
  by (simp add: ex_eqs run_defs)

text \<open>The waiter is woken in time: it takes the lock in its second turn.\<close>

lemma ex_timely_run:
  "lockSync example_host (JInt32Array (buffer ex_mutex)) (JNumber (Fin 10)) 0 ex_timely_wake
     ex_held =
     (Some (Inr ex_handle),
      \<lparr>heap = (\<lambda>a. 0)(0 := Locked), fresh = 1,
       log = [DateNow 0, CompareExchange 0 Unlocked Locked Unlocked,
              DateNow 0, CompareExchange 0 Unlocked Locked Locked,
              DateNow 0, CompareExchange 0 Unlocked Locked Locked,
              Wait 0 Locked (Fin 10) Ok,
              DateNow 5, CompareExchange 0 Unlocked Locked Unlocked]\<rparr>)"
  by (simp add: ex_eqs ex_timely_wake_def run_defs)

text \<open>The waiter is woken late: the deadline test of its second turn fails it.\<close>

lemma ex_late_run:
  "lock example_host (JInt32Array (buffer ex_mutex)) (JNumber (Fin 10)) 0 ex_late_wake ex_held =
     (Some (Inl (MutexError ''Mutex lock acquisition timed out after 10ms'')),
      \<lparr>heap = (\<lambda>a. 0)(0 := Unlocked), fresh = 1,
       log = [DateNow 0, CompareExchange 0 Unlocked Locked Unlocked,
              DateNow 0, CompareExchange 0 Unlocked Locked Locked,
              DateNow 0, CompareExchange 0 Unlocked Locked Locked,
              Wait 0 Locked (Fin 10) Ok,
              DateNow 11]\<rparr>)"
  by (simp add: ex_eqs ex_late_wake_def ten_ms run_defs)

text \<open>The wait itself reports 'timed-out'.\<close>

lemma ex_timed_out_run:
  "lockSync example_host (JInt32Array (buffer ex_mutex)) (JNumber (Fin 10)) 0 ex_wait_times_out
     ex_held =
     (Some (Inl (MutexError ''Mutex lock acquisition timed out after 10ms'')),
      \<lparr>heap = (\<lambda>a. 0)(0 := Locked), fresh = 1,
       log = [DateNow 0, CompareExchange 0 Unlocked Locked Unlocked,
              DateNow 0, CompareExchange 0 Unlocked Locked Locked,
              DateNow 3, CompareExchange 0 Unlocked Locked Locked,
              Wait 0 Locked (Fin 7) TimedOut]\<rparr>)"
  by (simp add: ex_eqs ex_wait_times_out_def ten_ms run_defs)

lemma ex_work_fails:
  "(\<lambda>w. (Inl ''Test error'' :: string + nat, w)) ex_held = (Inl ''Test error'', ex_held)"
  by simp

lemma ex_unlock_fails:
  "unlock (JInt32Array (buffer ex_mutex)) False ex_created =
     (Inl (MutexError ''Cannot unlock mutex that is not locked''),
      \<lparr>heap = (\<lambda>a. 0)(0 := Unlocked), fresh = 1,
       log = [CompareExchange 0 Locked Unlocked Unlocked]\<rparr>)"
  by (simp add: ex_eqs run_defs)

section \<open>The claims\<close>

text \<open>
  Claim C1. For a freshly created mutex, an acquisition with no contention succeeds and
  returns a handle; right afterwards \<open>isLocked\<close> is true; after that handle's release
  \<open>isLocked\<close> is false and the lock word is Unlocked again. This holds of \<open>lock\<close> and of
  \<open>lockSync\<close>, for every timeout that passes validation and whatever the turns \<open>rs\<close> are.
\<close>

theorem create_lock_release:
  assumes "validateTimeout (default_timeout t) = None"
    and "createMutex w0 = (m, w1)"
  shows "\<not> isLocked m w1
       \<and> (\<exists>hdl w2 w3. mutex_lock h m t start rs w1 = (Some (Inr hdl), w2) \<and> isLocked m w2
              \<and> dispose hdl w2 = (Inr (), w3) \<and> \<not> isLocked m w3
              \<and> load (base (buffer m)) w3 = Unlocked)
       \<and> (\<exists>hdl w2 w3. mutex_lockSync h m t start rs w1 = (Some (Inr hdl), w2) \<and> isLocked m w2
              \<and> dispose hdl w2 = (Inr (), w3) \<and> \<not> isLocked m w3
              \<and> load (base (buffer m)) w3 = Unlocked)"
proof -
  let ?buf = "JInt32Array (buffer m)"
  let ?a = "base (buffer m)"
  have valid: "validateMutexBuffer ?buf = None" and free: "heap w1 ?a = Unlocked"
    using createMutex_valid [OF assms(2)] by blast+
  let ?w2 = "acquired ?a start w1"
  let ?w3 = "snd (dispose (Handle ?buf) ?w2)"
  have held: "heap ?w2 ?a = Locked" by (simp add: acquired_def)
  have rel: "dispose (Handle ?buf) ?w2 = (Inr (), ?w3)"
    using held by (simp add: unlock_valid [OF valid])
  have after: "heap ?w3 ?a = Unlocked"
    using held by (simp add: unlock_valid [OF valid])
  have l2: "isLocked m ?w2" using held by (simp add: isLocked_def load_def)
  have l3: "\<not> isLocked m ?w3" "load ?a ?w3 = Unlocked"
    using after by (simp_all add: isLocked_def load_def Locked_def Unlocked_def)
  have l1: "\<not> isLocked m w1"
    using free by (simp add: isLocked_def load_def Locked_def Unlocked_def)
  have a: "mutex_lock h m t start rs w1 = (Some (Inr (Handle ?buf)), ?w2)"
    unfolding mutex_lock_def by (rule lock_fast [OF valid assms(1) free])
  have s: "mutex_lockSync h m t start rs w1 = (Some (Inr (Handle ?buf)), ?w2)"
    unfolding mutex_lockSync_def by (rule lockSync_fast [OF valid assms(1) free])
  show ?thesis using l1 a s l2 rel l3 by blast
qed

text \<open>The scenario \<^verbatim>\<open>m = createMutex(); h = await m.lock(); h[dispose]()\<close>.\<close>

theorem create_lock_release_witness:
  "validateTimeout (default_timeout JUndefined) = None
   \<and> createMutex boot = (ex_mutex, ex_created)
   \<and> \<not> isLocked ex_mutex ex_created
   \<and> (\<exists>hdl w2 w3.
         mutex_lock example_host ex_mutex JUndefined 0 [] ex_created = (Some (Inr hdl), w2)
          \<and> isLocked ex_mutex w2 \<and> dispose hdl w2 = (Inr (), w3) \<and> \<not> isLocked ex_mutex w3
          \<and> load (base (buffer ex_mutex)) w3 = Unlocked)"
  using create_lock_release [OF undefined_timeout_valid ex_create, of example_host 0 "[]"]
    undefined_timeout_valid ex_create by blast

text \<open>
  Claim C2. For every valid buffer whose lock word is Unlocked, \<open>lock\<close> and \<open>lockSync\<close>,
  with any timeout that passes validation (0 included), succeed by the first
  compare-and-swap and return a handle: the only host calls are the clock reading and
  that compare-and-swap, so the wait and notify primitives are never invoked.
\<close>

theorem fast_path:
  assumes "validateMutexBuffer (JInt32Array b) = None"
    and "validateTimeout (default_timeout t) = None"
    and "heap w (base b) = Unlocked"
  shows "lock h (JInt32Array b) t start rs w =
           (Some (Inr (Handle (JInt32Array b))), acquired (base b) start w)
       \<and> lockSync h (JInt32Array b) t start rs w =
           (Some (Inr (Handle (JInt32Array b))), acquired (base b) start w)
       \<and> emitted w (acquired (base b) start w) =
           [DateNow start, CompareExchange (base b) Unlocked Locked Unlocked]
       \<and> (\<forall>e \<in> set (emitted w (acquired (base b) start w)). \<not> is_wait e \<and> \<not> is_notify e)"
  using lock_fast [OF assms] lockSync_fast [OF assms] by (simp add: emitted_acquired)

text \<open>A timeout of 0 on the fresh mutex, with turns at hand that are never taken.\<close>

theorem fast_path_witness:
  "validateMutexBuffer (JInt32Array (buffer ex_mutex)) = None
   \<and> validateTimeout (default_timeout (JNumber (Fin 0))) = None
   \<and> heap ex_created (base (buffer ex_mutex)) = Unlocked
   \<and> lock example_host (JInt32Array (buffer ex_mutex)) (JNumber (Fin 0)) 7 ex_late_wake
        ex_created =
       (Some (Inr (Handle (JInt32Array (buffer ex_mutex)))),
        acquired (base (buffer ex_mutex)) 7 ex_created)
   \<and> emitted ex_created (acquired (base (buffer ex_mutex)) 7 ex_created) =
       [DateNow 7, CompareExchange (base (buffer ex_mutex)) Unlocked Locked Unlocked]"
  using fast_path [OF ex_buffer_valid zero_timeout_valid ex_created_free,
      of example_host 7 ex_late_wake]
    ex_buffer_valid zero_timeout_valid ex_created_free by blast


text \<open>
  Claim C3, as the code has it. The handle keeps no record of having been released: its
  release is \<^verbatim>\<open>unlock(buffer, true)\<close> every time. So a further release of a handle that
  \<open>lock\<close> or \<open>lockSync\<close> returned never throws; it leaves the lock word as it is when the
  word is not Locked at that moment, as right after the first release; and when the word
  is Locked at that moment, because the lock has been acquired again by whomever, it
  stores Unlocked and notifies the waiters. The standalone \<open>unlock\<close> on a buffer whose
  lock word is Unlocked raises the not-locked error.
\<close>

theorem handle_release_again:
  assumes "lock h buf targ start rs w0 = (Some (Inr hdl), w1) \<or>
           lockSync h buf targ start rs w0 = (Some (Inr hdl), w1)"
  shows "\<exists>b. buf = JInt32Array b \<and>
     (\<forall>w. fst (dispose hdl w) = Inr ()
        \<and> (heap w (base b) \<noteq> Locked \<longrightarrow>
              heap (snd (dispose hdl w)) = heap w
              \<and> emitted w (snd (dispose hdl w)) =
                  [CompareExchange (base b) Locked Unlocked (heap w (base b))])
        \<and> (heap w (base b) = Locked \<longrightarrow>
              heap (snd (dispose hdl w)) = (heap w)(base b := Unlocked)
              \<and> emitted w (snd (dispose hdl w)) =
                  [CompareExchange (base b) Locked Unlocked Locked, Notify (base b)])
        \<and> (heap w (base b) = Unlocked \<longrightarrow>
              fst (unlock buf False w) =
                Inl (MutexError ''Cannot unlock mutex that is not locked'')))"
proof -
  have run: "lock h buf targ start rs w0 = (Some (Inr hdl), w1)"
    using assms by (simp add: lockSync_eq)
  have valid: "validateMutexBuffer buf = None" and hdl: "hdl = Handle buf"
    using lock_handle [OF run] by blast+
  obtain b where b: "buf = JInt32Array b" using valid valid_buffer_shape by blast
  have vb: "validateMutexBuffer (JInt32Array b) = None" using valid b by simp
  show ?thesis
    unfolding hdl b
    by (intro exI [of _ b] conjI allI)
       (auto simp: unlock_valid [OF vb] emitted_def Locked_def Unlocked_def)
qed

text \<open>
  The handle of the scenario, released again right after its first release, and released
  again after the second acquisition.
\<close>

theorem handle_release_again_witness:
  "lock example_host (JInt32Array (buffer ex_mutex)) JUndefined 0 [] ex_created =
     (Some (Inr ex_handle), ex_held)
   \<and> fst (dispose ex_handle ex_released) = Inr ()
   \<and> heap (snd (dispose ex_handle ex_released)) = heap ex_released
   \<and> fst (mutex_unlock ex_mutex ex_released) =
       Inl (MutexError ''Cannot unlock mutex that is not locked'')
   \<and> heap (snd (dispose ex_handle ex_held_again)) = (heap ex_held_again)(0 := Unlocked)"
proof -
  have run: "lock example_host (JInt32Array (buffer ex_mutex)) JUndefined 0 [] ex_created =
      (Some (Inr ex_handle), ex_held)"
    by (simp add: ex_eqs run_defs)
  have free: "heap ex_released (base (buffer ex_mutex)) = Unlocked"
    and held: "heap ex_held_again (base (buffer ex_mutex)) = Locked"
    and a: "base (buffer ex_mutex) = 0"
    by (simp_all add: ex_eqs)
  from handle_release_again [OF disjI1 [OF run]] obtain b where
    b: "JInt32Array (buffer ex_mutex) = JInt32Array b"
    and every: "\<And>w. fst (dispose ex_handle w) = Inr ()
        \<and> (heap w (base b) \<noteq> Locked \<longrightarrow>
              heap (snd (dispose ex_handle w)) = heap w
              \<and> emitted w (snd (dispose ex_handle w)) =
                  [CompareExchange (base b) Locked Unlocked (heap w (base b))])
        \<and> (heap w (base b) = Locked \<longrightarrow>
              heap (snd (dispose ex_handle w)) = (heap w)(base b := Unlocked)
              \<and> emitted w (snd (dispose ex_handle w)) =
                  [CompareExchange (base b) Locked Unlocked Locked, Notify (base b)])
        \<and> (heap w (base b) = Unlocked \<longrightarrow>
              fst (unlock (JInt32Array (buffer ex_mutex)) False w) =
                Inl (MutexError ''Cannot unlock mutex that is not locked''))"
    by blast
  have b': "b = buffer ex_mutex" using b by simp
  have nl: "heap ex_released (base b) \<noteq> Locked"
    using free by (simp add: b' Locked_def Unlocked_def)
  show ?thesis
    using run every [of ex_released] every [of ex_held_again] free held nl a
    by (simp add: b' mutex_unlock_def)
qed

text \<open>
  Claim C3 as stated fails: a second release does not leave the lock word unchanged once
  the lock has been acquired again. In the scenario the first participant takes the lock
  and releases it, a second one takes it, and the second release of the first handle
  finds the word Locked, stores Unlocked and notifies: the second participant's lock is
  gone.
\<close>

theorem handle_release_again_counterexample:
  "mutex_lock example_host ex_mutex JUndefined 0 [] ex_created = (Some (Inr ex_handle), ex_held)
   \<and> dispose ex_handle ex_held = (Inr (), ex_released)
   \<and> mutex_lockSync example_host ex_mutex JUndefined 5 [] ex_released =
       (Some (Inr ex_handle), ex_held_again)
   \<and> load (base (buffer ex_mutex)) ex_held_again = Locked
   \<and> dispose ex_handle ex_held_again = (Inr (), ex_released_twice)
   \<and> load (base (buffer ex_mutex)) ex_released_twice = Unlocked
   \<and> emitted ex_held_again ex_released_twice =
       [CompareExchange 0 Locked Unlocked Locked, Notify 0]"
  by (simp add: ex_eqs run_defs)

text \<open>
  Claim C4, as the code has it. In the loop of \<open>lock\<close> and of \<open>lockSync\<close>, when the wait
  reports 'ok' or 'not-equal', control returns to the top of the loop, where the clock is
  read and the deadline is tested first: if the timeout is finite and the elapsed time
  exceeds it, the timeout failure is raised at once, with no further compare-and-swap;
  otherwise the next action is the compare-and-swap of the lock word.
\<close>

theorem wake_then_deadline_then_cas:
  assumes "lock h buf targ start rs w = (res, w') \<or> lockSync h buf targ start rs w = (res, w')"
    and "default_timeout targ = JNumber t"
  shows "wake_rule h t start res (emitted w w')"
proof -
  have run: "lock h buf targ start rs w = (res, w')"
    using assms(1) by (simp add: lockSync_eq)
  show ?thesis
  proof (cases rule: lock_cases [where h = h and buf = buf and targ = targ
          and start = start and rs = rs and w = w])
    case (invalid e)
    then have "w' = w" using run by simp
    then show ?thesis by (simp add: emitted_same)
  next
    case (fast b t')
    then have "w' = acquired (base b) start w" using run by simp
    then show ?thesis by (simp add: emitted_acquired)
  next
    case (slow b t')
    let ?first = "[DateNow start, CompareExchange (base b) Unlocked Locked (heap w (base b))]"
    let ?w0 = "w\<lparr>log := log w @ ?first\<rparr>"
    have t': "t' = t" using slow(2) assms(2) by simp
    have "lock_loop h buf (base b) t start rs ?w0 = (res, w')"
      using slow(6) run t' by simp
    from lock_loop_log [OF this] obtain es where
      es: "log w' = log ?w0 @ es" "wake_rule h t start res es" by blast
    have "emitted w w' = ?first @ es"
      using es(1) by (intro emitted_append) simp
    then show ?thesis using es(2) by simp
  qed
qed

text \<open>The waiter that is woken in time: after the wake-up, the clock, then the swap.\<close>

theorem wake_then_deadline_then_cas_witness:
  "lockSync example_host (JInt32Array (buffer ex_mutex)) (JNumber (Fin 10)) 0 ex_timely_wake
     ex_held =
     (Some (Inr ex_handle),
      \<lparr>heap = (\<lambda>a. 0)(0 := Locked), fresh = 1,
       log = [DateNow 0, CompareExchange 0 Unlocked Locked Unlocked,
              DateNow 0, CompareExchange 0 Unlocked Locked Locked,
              DateNow 0, CompareExchange 0 Unlocked Locked Locked,
              Wait 0 Locked (Fin 10) Ok,
              DateNow 5, CompareExchange 0 Unlocked Locked Unlocked]\<rparr>)
   \<and> default_timeout (JNumber (Fin 10)) = JNumber (Fin 10)
   \<and> wake_rule example_host (Fin 10) 0 (Some (Inr ex_handle))
        (emitted ex_held
          \<lparr>heap = (\<lambda>a. 0)(0 := Locked), fresh = 1,
           log = [DateNow 0, CompareExchange 0 Unlocked Locked Unlocked,
              DateNow 0, CompareExchange 0 Unlocked Locked Locked,
              DateNow 0, CompareExchange 0 Unlocked Locked Locked,
              Wait 0 Locked (Fin 10) Ok,
              DateNow 5, CompareExchange 0 Unlocked Locked Unlocked]\<rparr>)"
  using wake_then_deadline_then_cas [OF disjI2 [OF ex_timely_run] number_timeout]
    ex_timely_run number_timeout by blast

text \<open>
  Claim C4 as stated fails: the timeout failure does not wait for a compare-and-swap
  after the wake-up. The waiter (timeout 10, started at 0) is woken with 'ok'; by then the
  holder has stored Unlocked; the clock shows 11; the attempt fails with the timeout
  error, and its last host calls are the wait and the clock reading.
\<close>

theorem wake_then_deadline_then_cas_counterexample:
  "mutex_lock example_host ex_mutex (JNumber (Fin 10)) 0 ex_late_wake ex_held =
     (Some (Inl (MutexError ''Mutex lock acquisition timed out after 10ms'')),
      \<lparr>heap = (\<lambda>a. 0)(0 := Unlocked), fresh = 1,
       log = [DateNow 0, CompareExchange 0 Unlocked Locked Unlocked,
              DateNow 0, CompareExchange 0 Unlocked Locked Locked,
              DateNow 0, CompareExchange 0 Unlocked Locked Locked,
              Wait 0 Locked (Fin 10) Ok,
              DateNow 11]\<rparr>)
   \<and> \<not> cas_follows_wake
        (emitted ex_held
           (snd (mutex_lock example_host ex_mutex (JNumber (Fin 10)) 0 ex_late_wake ex_held)))"
  by (simp add: ex_eqs ex_late_wake_def ten_ms run_defs)

text \<open>
  Claim C5 fails on the code for the timeout NaN, which is neither the unbounded sentinel
  nor a non-negative quantity: \<^verbatim>\<open>typeof NaN\<close> is \<^verbatim>\<open>'number'\<close> and \<^verbatim>\<open>NaN < 0\<close> is
  false, so \<open>validateTimeout\<close> lets it pass. \<open>lock\<close> and \<open>lockSync\<close> then read the clock and
  swap; against a held lock the deadline test never fires and the wait gets the timeout
  NaN. (For every other timeout the claim speaks of, see \<open>invalid_timeout_rejected\<close>.)
\<close>

theorem nan_timeout_accepted:
  "validateTimeout (JNumber NaN) = None
   \<and> mutex_lock example_host ex_mutex (JNumber NaN) 0 [] ex_created =
       (Some (Inr ex_handle), ex_held)
   \<and> mutex_lockSync example_host ex_mutex (JNumber NaN) 0 [] ex_created =
       (Some (Inr ex_handle), ex_held)
   \<and> emitted ex_created ex_held = [DateNow 0, CompareExchange 0 Unlocked Locked Unlocked]
   \<and> mutex_lock example_host ex_mutex (JNumber NaN) 0 ex_late_wake ex_held_again =
       (Some (Inr ex_handle),
        \<lparr>heap = (\<lambda>a. 0)(0 := Locked), fresh = 1,
         log = log ex_held_again @
             [DateNow 0, CompareExchange 0 Unlocked Locked Locked,
              DateNow 0, CompareExchange 0 Unlocked Locked Locked,
              Wait 0 Locked NaN Ok,
              DateNow 11, CompareExchange 0 Unlocked Locked Unlocked]\<rparr>)"
  by (simp add: ex_eqs ex_late_wake_def run_defs)




text \<open>
  Claim C7. Whenever \<open>lock\<close> or \<open>lockSync\<close>, called with the timeout \<open>T\<close>, fails by
  timeout, be it that the deadline test has fired or that the wait has reported
  'timed-out', the error is the one whose message is
  \<^verbatim>\<open>Mutex lock acquisition timed out after\<close>, the host's rendering of \<open>T\<close>, \<^verbatim>\<open>ms\<close>; so
  the message contains that rendering followed by \<^verbatim>\<open>ms\<close>. And a call whose arguments
  have passed validation and which fails with anything but the interruption error has
  failed by timeout.
\<close>

theorem timeout_message_names_timeout:
  assumes "lock h buf (JNumber T) start rs w = (Some (Inl e), w') \<or>
           lockSync h buf (JNumber T) start rs w = (Some (Inl e), w')"
  shows "(failed_by_timeout T start (emitted w w') \<longrightarrow>
            e = MutexError
                  (''Mutex lock acquisition timed out after '' @ number_to_string h T @ ''ms'')
            \<and> sublist (number_to_string h T @ ''ms'') (message e))
       \<and> (validateMutexBuffer buf = None \<and> validateTimeout (JNumber T) = None
            \<and> e \<noteq> MutexError ''Mutex wait was interrupted'' \<longrightarrow>
            failed_by_timeout T start (emitted w w'))"
proof -
  have run: "lock h buf (JNumber T) start rs w = (Some (Inl e), w')"
    using assms(1) by (simp add: lockSync_eq)
  have shape: "(failed_by_timeout T start (emitted w w') \<longrightarrow> e = timed_out h T)
       \<and> (validateMutexBuffer buf = None \<and> validateTimeout (JNumber T) = None
            \<and> e \<noteq> MutexError ''Mutex wait was interrupted'' \<longrightarrow>
            failed_by_timeout T start (emitted w w'))"
  proof (cases rule: lock_cases [where h = h and buf = buf and targ = "JNumber T"
          and start = start and rs = rs and w = w])
    case (invalid e')
    then have "w' = w" "e' = e" using run by simp_all
    then show ?thesis
      using invalid(2) by (auto simp: emitted_same failed_by_timeout_def number_timeout)
  next
    case (fast b t)
    then show ?thesis using run by simp
  next
    case (slow b t)
    let ?first = "[DateNow start, CompareExchange (base b) Unlocked Locked (heap w (base b))]"
    let ?w0 = "w\<lparr>log := log w @ ?first\<rparr>"
    have "lock_loop h buf (base b) T start rs ?w0 = (Some (Inl e), w')"
      using slow run number_timeout by simp
    from lock_loop_cause [OF this] obtain es where es: "log w' = log ?w0 @ es" "es \<noteq> []"
      "(timeout_event T start (last es) \<and> e = timed_out h T)
         \<or> ((\<exists>c v tm. last es = Wait c v tm Interrupted)
             \<and> e = MutexError ''Mutex wait was interrupted'')" by blast
    have em: "emitted w w' = ?first @ es"
      using es(1) by (intro emitted_append) simp
    have "failed_by_timeout T start (emitted w w') = timeout_event T start (last es)"
      using es(2) by (simp add: em failed_by_timeout_def)
    then show ?thesis using es(3) by auto
  qed
  have "sublist (number_to_string h T @ ''ms'') (message (timed_out h T))"
    unfolding timed_out_message sublist_def
    by (intro exI [of _ "''Mutex lock acquisition timed out after ''"] exI [of _ "[]"]) simp
  then have sub: "e = timed_out h T \<Longrightarrow> sublist (number_to_string h T @ ''ms'') (message e)"
    by (simp only:)
  have "e = MutexError
              (''Mutex lock acquisition timed out after '' @ number_to_string h T @ ''ms'')
        \<and> sublist (number_to_string h T @ ''ms'') (message e)"
    if "failed_by_timeout T start (emitted w w')"
  proof -
    have e: "e = timed_out h T" using that shape by blast
    show ?thesis using e sub [OF e] by (simp only: timed_out_def simp_thms)
  qed
  then show ?thesis using shape by blast
qed


text \<open>
  A timeout of 10 ms against the held lock, once failed by the deadline test and once by
  the wait: both messages contain \<^verbatim>\<open>10ms\<close>.
\<close>

theorem timeout_message_names_timeout_witness:
  "lock example_host (JInt32Array (buffer ex_mutex)) (JNumber (Fin 10)) 0 ex_late_wake ex_held =
     (Some (Inl (MutexError ''Mutex lock acquisition timed out after 10ms'')),
      \<lparr>heap = (\<lambda>a. 0)(0 := Unlocked), fresh = 1,
       log = [DateNow 0, CompareExchange 0 Unlocked Locked Unlocked,
              DateNow 0, CompareExchange 0 Unlocked Locked Locked,
              DateNow 0, CompareExchange 0 Unlocked Locked Locked,
              Wait 0 Locked (Fin 10) Ok,
              DateNow 11]\<rparr>)
   \<and> failed_by_timeout (Fin 10) 0
        [DateNow 0, CompareExchange 0 Unlocked Locked Locked,
         DateNow 0, CompareExchange 0 Unlocked Locked Locked,
         Wait 0 Locked (Fin 10) Ok,
         DateNow 11]
   \<and> lockSync example_host (JInt32Array (buffer ex_mutex)) (JNumber (Fin 10)) 0
        ex_wait_times_out ex_held =
     (Some (Inl (MutexError ''Mutex lock acquisition timed out after 10ms'')),
      \<lparr>heap = (\<lambda>a. 0)(0 := Locked), fresh = 1,
       log = [DateNow 0, CompareExchange 0 Unlocked Locked Unlocked,
              DateNow 0, CompareExchange 0 Unlocked Locked Locked,
              DateNow 3, CompareExchange 0 Unlocked Locked Locked,
              Wait 0 Locked (Fin 7) TimedOut]\<rparr>)
   \<and> failed_by_timeout (Fin 10) 0
        [DateNow 0, CompareExchange 0 Unlocked Locked Locked,
         DateNow 3, CompareExchange 0 Unlocked Locked Locked,
         Wait 0 Locked (Fin 7) TimedOut]
   \<and> sublist ''10ms'' (message (MutexError ''Mutex lock acquisition timed out after 10ms''))"
proof -
  let ?late = "[DateNow 0, CompareExchange 0 Unlocked Locked Locked,
         DateNow 0, CompareExchange 0 Unlocked Locked Locked,
         Wait 0 Locked (Fin 10) Ok,
         DateNow 11]"
  let ?waited = "[DateNow 0, CompareExchange 0 Unlocked Locked Locked,
         DateNow 3, CompareExchange 0 Unlocked Locked Locked,
         Wait 0 Locked (Fin 7) TimedOut]"
  have c1: "failed_by_timeout (Fin 10) 0 ?late"
    by (simp add: failed_by_timeout_def deadline_passed_def js_gt_def)
  have c2: "failed_by_timeout (Fin 10) 0 ?waited"
    by (simp add: failed_by_timeout_def)
  have e1: "emitted ex_held
      \<lparr>heap = (\<lambda>a. 0)(0 := Unlocked), fresh = 1,
       log = [DateNow 0, CompareExchange 0 Unlocked Locked Unlocked] @ ?late\<rparr> = ?late"
    by (simp add: emitted_def ex_held_eq)
  have e2: "emitted ex_held
      \<lparr>heap = (\<lambda>a. 0)(0 := Locked), fresh = 1,
       log = [DateNow 0, CompareExchange 0 Unlocked Locked Unlocked] @ ?waited\<rparr> = ?waited"
    by (simp add: emitted_def ex_held_eq)
  have "sublist (number_to_string example_host (Fin 10) @ ''ms'')
          (message (MutexError ''Mutex lock acquisition timed out after 10ms''))"
    using timeout_message_names_timeout [OF disjI1 [OF ex_late_run]] c1 e1 by simp
  moreover have "sublist (number_to_string example_host (Fin 10) @ ''ms'')
          (message (MutexError ''Mutex lock acquisition timed out after 10ms''))"
    using timeout_message_names_timeout [OF disjI2 [OF ex_timed_out_run]] c2 e2 by simp
  ultimately have "sublist ''10ms''
      (message (MutexError ''Mutex lock acquisition timed out after 10ms''))"
    by (simp add: ten_ms)
  then show ?thesis using ex_late_run ex_timed_out_run c1 c2 by blast
qed

text \<open>
  Claim C8, as the code has it. \<open>rapidGuard\<close> fails at once, the world untouched, with an
  invalid-argument error when its first argument has no callable \<^verbatim>\<open>lock\<close> or its
  second is not a function. Otherwise it calls \<^verbatim>\<open>lock\<close> with the timeout: while that
  has not returned \<open>rapidGuard\<close> has not either and the function has not run; when it
  throws, what it threw is the result and the function has not run; when it returns a
  handle, the function runs, then the handle's release is called, whether the function
  has returned or thrown, and when the release returns, what the function returned or
  threw is the result, unchanged; when the release throws, what it threw is the result
  instead. With a mutex of this library the function starts with the lock word Locked,
  the release never throws, and \<open>isLocked\<close> is false after it.
\<close>

theorem rapidGuard_releases:
  "rapidGuard (NotAMutex v) fn targ start rs w =
     (Some (Inl (Inl (MutexError ''Invalid mutex: must be a mutex object with lock method''))), w)
   \<and> rapidGuard (LockObject l) (NotCallable v') targ start rs w =
     (Some (Inl (Inl (MutexError ''Invalid function: must provide a function to execute''))), w)
   \<and> (\<forall>w1. l (default_timeout targ) start rs w = (None, w1) \<longrightarrow>
         rapidGuard (LockObject l) (Callable f) targ start rs w = (None, w1))
   \<and> (\<forall>e w1. l (default_timeout targ) start rs w = (Some (Inl e), w1) \<longrightarrow>
         rapidGuard (LockObject l) (Callable f) targ start rs w = (Some (Inl e), w1))
   \<and> (\<forall>lockHandle w1 res w2 rel w3.
         l (default_timeout targ) start rs w = (Some (Inr lockHandle), w1)
         \<and> f w1 = (res, w2) \<and> call_dispose lockHandle w2 = (rel, w3) \<longrightarrow>
         rapidGuard (LockObject l) (Callable f) targ start rs w =
           (Some (case rel of
                    Inl e \<Rightarrow> Inl e
                  | Inr u \<Rightarrow> (case res of Inl x \<Rightarrow> Inl (Inr x) | Inr y \<Rightarrow> Inr y)), w3))
   \<and> (\<forall>w1. mutex_lock h m (default_timeout targ) start rs w = (None, w1) \<longrightarrow>
         rapidGuard (mutex_object h m) (Callable f) targ start rs w = (None, w1))
   \<and> (\<forall>e w1. mutex_lock h m (default_timeout targ) start rs w = (Some (Inl e), w1) \<longrightarrow>
         rapidGuard (mutex_object h m) (Callable f) targ start rs w = (Some (Inl (Inl e)), w1))
   \<and> (\<forall>hdl w1 res w2.
         mutex_lock h m (default_timeout targ) start rs w = (Some (Inr hdl), w1)
         \<and> f w1 = (res, w2) \<longrightarrow>
         isLocked m w1
         \<and> (\<exists>w3. dispose hdl w2 = (Inr (), w3)
            \<and> rapidGuard (mutex_object h m) (Callable f) targ start rs w =
                 (Some (case res of Inl x \<Rightarrow> Inl (Inr x) | Inr y \<Rightarrow> Inr y), w3)
            \<and> \<not> isLocked m w3
            \<and> heap w3 = (heap w2)(base (buffer m) :=
                 (if heap w2 (base (buffer m)) = Locked then Unlocked
                  else heap w2 (base (buffer m))))))"
proof (intro conjI allI impI)
  show "rapidGuard (NotAMutex v) fn targ start rs w =
     (Some (Inl (Inl (MutexError ''Invalid mutex: must be a mutex object with lock method''))), w)"
    by (simp add: rapidGuard_def)
  show "rapidGuard (LockObject l) (NotCallable v') targ start rs w =
     (Some (Inl (Inl (MutexError ''Invalid function: must provide a function to execute''))), w)"
    by (simp add: rapidGuard_def)
next
  fix w1
  assume "l (default_timeout targ) start rs w = (None, w1)"
  then show "rapidGuard (LockObject l) (Callable f) targ start rs w = (None, w1)"
    by (simp add: rapidGuard_def)
next
  fix e w1
  assume "l (default_timeout targ) start rs w = (Some (Inl e), w1)"
  then show "rapidGuard (LockObject l) (Callable f) targ start rs w = (Some (Inl e), w1)"
    by (simp add: rapidGuard_def)
next
  fix lockHandle w1 res w2 rel w3
  assume "l (default_timeout targ) start rs w = (Some (Inr lockHandle), w1)
         \<and> f w1 = (res, w2) \<and> call_dispose lockHandle w2 = (rel, w3)"
  then show "rapidGuard (LockObject l) (Callable f) targ start rs w =
           (Some (case rel of
                    Inl e \<Rightarrow> Inl e
                  | Inr u \<Rightarrow> (case res of Inl x \<Rightarrow> Inl (Inr x) | Inr y \<Rightarrow> Inr y)), w3)"
    by (cases rel) (simp_all add: rapidGuard_def)
next
  fix w1
  assume "mutex_lock h m (default_timeout targ) start rs w = (None, w1)"
  then show "rapidGuard (mutex_object h m) (Callable f) targ start rs w = (None, w1)"
    by (simp add: rapidGuard_def mutex_object_def)
next
  fix e w1
  assume "mutex_lock h m (default_timeout targ) start rs w = (Some (Inl e), w1)"
  then show "rapidGuard (mutex_object h m) (Callable f) targ start rs w =
      (Some (Inl (Inl e)), w1)"
    by (simp add: rapidGuard_def mutex_object_def)
next
  fix hdl w1 res w2
  assume a: "mutex_lock h m (default_timeout targ) start rs w = (Some (Inr hdl), w1)
             \<and> f w1 = (res, w2)"
  let ?buf = "JInt32Array (buffer m)"
  let ?a = "base (buffer m)"
  have run: "lock h ?buf (default_timeout targ) start rs w = (Some (Inr hdl), w1)"
    using a by (simp add: mutex_lock_def)
  have valid: "validateMutexBuffer ?buf = None" and hdl: "hdl = Handle ?buf"
    using lock_handle [OF run] by blast+
  show "isLocked m w1"
    using lock_locked [OF run] by (simp add: isLocked_def load_def)
  define w3 where "w3 = snd (dispose hdl w2)"
  have d: "dispose hdl w2 = (Inr (), w3)"
    unfolding w3_def hdl by (simp add: unlock_valid [OF valid])
  have h3: "heap w3 = (heap w2)(?a := (if heap w2 ?a = Locked then Unlocked else heap w2 ?a))"
    unfolding w3_def hdl by (auto simp add: unlock_valid [OF valid])
  have free: "\<not> isLocked m w3"
    by (simp add: isLocked_def load_def h3 Locked_def Unlocked_def)
  have "rapidGuard (mutex_object h m) (Callable f) targ start rs w =
                 (Some (case res of Inl x \<Rightarrow> Inl (Inr x) | Inr y \<Rightarrow> Inr y), w3)"
    using a d by (simp add: rapidGuard_def mutex_object_def handle_object_def)
  then show "\<exists>w3. dispose hdl w2 = (Inr (), w3)
            \<and> rapidGuard (mutex_object h m) (Callable f) targ start rs w =
                 (Some (case res of Inl x \<Rightarrow> Inl (Inr x) | Inr y \<Rightarrow> Inr y), w3)
            \<and> \<not> isLocked m w3
            \<and> heap w3 = (heap w2)(?a := (if heap w2 ?a = Locked then Unlocked else heap w2 ?a))"
    using d free h3 by blast
qed

text \<open>
  \<^verbatim>\<open>rapidGuard(mutex, () => { throw 'Test error' })\<close> on the fresh mutex: the function
  starts under the lock, the result is what it threw, and the mutex is unlocked
  afterwards.
\<close>

theorem rapidGuard_releases_witness:
  "mutex_lock example_host ex_mutex (default_timeout JUndefined) 0 [] ex_created =
     (Some (Inr ex_handle), ex_held)
   \<and> isLocked ex_mutex ex_held
   \<and> (\<exists>w3. dispose ex_handle ex_held = (Inr (), w3)
         \<and> rapidGuard (mutex_object example_host ex_mutex) ex_failing_work JUndefined 0 []
              ex_created =
             (Some (Inl (Inr ''Test error'')), w3)
         \<and> \<not> isLocked ex_mutex w3)"
proof -
  note every = rapidGuard_releases [where h = example_host and m = ex_mutex
      and targ = JUndefined and start = 0 and rs = "[]" and w = ex_created
      and f = "\<lambda>w. (Inl ''Test error'' :: string + nat, w)"]
  note library = every [THEN conjunct2, THEN conjunct2, THEN conjunct2, THEN conjunct2,
      THEN conjunct2, THEN conjunct2, THEN conjunct2, rule_format]
  have "isLocked ex_mutex ex_held
     \<and> (\<exists>w3. dispose ex_handle ex_held = (Inr (), w3)
         \<and> rapidGuard (mutex_object example_host ex_mutex)
              (Callable (\<lambda>w. (Inl ''Test error'' :: string + nat, w))) JUndefined 0 []
              ex_created =
             (Some (case (Inl ''Test error'' :: string + nat) of
                      Inl x \<Rightarrow> Inl (Inr x) | Inr y \<Rightarrow> Inr y), w3)
         \<and> \<not> isLocked ex_mutex w3)"
    using library [OF conjI [OF ex_first_lock ex_work_fails]] by fast
  then show ?thesis using ex_first_lock by (simp add: ex_failing_work_def)
qed

text \<open>
  Claim C8 as stated fails: what the function returned or threw is not always what the
  caller gets. A foreign object with a callable \<^verbatim>\<open>lock\<close> passes the test of
  \<^verbatim>\<open>rapidGuard\<close>; when the release of the handle it returns throws, or the handle has no
  release to call, the function's result 42 is lost and the caller gets that exception.
\<close>

theorem rapidGuard_releases_counterexample:
  "rapidGuard ex_throwing_release ex_returning_work JUndefined 0 [] boot =
     (Some (Inl (Inr ''release failed'')), boot)
   \<and> rapidGuard ex_throwing_release ex_failing_work JUndefined 0 [] boot =
     (Some (Inl (Inr ''release failed'')), boot)
   \<and> rapidGuard ex_no_release ex_returning_work JUndefined 0 [] boot =
     (Some (Inl (Inl TypeError)), boot)"
  by (simp add: rapidGuard_def ex_throwing_release_def ex_no_release_def
      ex_returning_work_def ex_failing_work_def)

text \<open>
  Claim C9. For every non-empty string, the buffer that \<open>createBufferFromString\<close> makes
  has a length that is a multiple of 4, the least one that holds the 4 bytes of the lock
  word and the \<open>N\<close> bytes of the encoded string, and the returned view covers all of it;
  its bytes 0 to 3 are those of the lock word Unlocked, which is what element 0 of the
  returned view reads; the next \<open>N\<close> bytes are the encoded string; all bytes after them
  are zero. An empty string, and a value that is not a string, fail with the
  invalid-input error.
\<close>

theorem string_buffer_layout:
  "(s \<noteq> [] \<longrightarrow>
      (\<exists>buf. createBufferFromString h (JString s) = Inr buf
         \<and> length buf mod 4 = 0
         \<and> 4 * int32_length buf = length buf
         \<and> 4 + length (utf8_encode h s) \<le> length buf
         \<and> length buf < 4 + length (utf8_encode h s) + 4
         \<and> take 4 buf = int32_bytes Unlocked
         \<and> int32_at 0 buf = Some Unlocked
         \<and> take (length (utf8_encode h s)) (drop 4 buf) = utf8_encode h s
         \<and> (\<forall>i. 4 + length (utf8_encode h s) \<le> i \<and> i < length buf \<longrightarrow> buf ! i = 0)))
   \<and> ((\<forall>x. input = JString x \<longrightarrow> x = []) \<longrightarrow>
        createBufferFromString h input =
          Inl (MutexError ''Invalid input: must be a non-empty string''))"
proof (intro conjI impI)
  assume ne: "s \<noteq> []"
  define bytes where "bytes = utf8_encode h s"
  define A where "A = nat \<lceil>real (4 + length bytes) / 4\<rceil> * 4"
  define buf where
    "buf = replicate 4 0 @ bytes @ replicate (A - (4 + length bytes)) (0 :: 8 word)"
  have le: "4 + length bytes \<le> A" and lt: "A < 4 + length bytes + 4" and al: "A mod 4 = 0"
    unfolding A_def by (rule aligned_bounds)+
  have run: "createBufferFromString h (JString s) = Inr buf"
    unfolding buf_def A_def bytes_def by (rule string_buffer [OF ne])
  have len: "length buf = A" using le by (simp add: buf_def)
  have view: "4 * int32_length buf = length buf"
    using al unfolding int32_length_def len by presburger
  have head: "take 4 buf = [0, 0, 0, 0]" by (simp add: buf_def numeral_eq_Suc)
  have word: "int32_at 0 buf = Some Unlocked"
    using le head by (simp add: int32_at_def len rcat_zero Unlocked_def)
  have body: "take (length bytes) (drop 4 buf) = bytes" by (simp add: buf_def)
  have pad: "\<forall>i. 4 + length bytes \<le> i \<and> i < length buf \<longrightarrow> buf ! i = 0"
    by (auto simp: buf_def nth_append)
  show "\<exists>buf. createBufferFromString h (JString s) = Inr buf
         \<and> length buf mod 4 = 0
         \<and> 4 * int32_length buf = length buf
         \<and> 4 + length (utf8_encode h s) \<le> length buf
         \<and> length buf < 4 + length (utf8_encode h s) + 4
         \<and> take 4 buf = int32_bytes Unlocked
         \<and> int32_at 0 buf = Some Unlocked
         \<and> take (length (utf8_encode h s)) (drop 4 buf) = utf8_encode h s
         \<and> (\<forall>i. 4 + length (utf8_encode h s) \<le> i \<and> i < length buf \<longrightarrow> buf ! i = 0)"
    using run len le lt al view head word body pad
    unfolding bytes_def [symmetric] int32_bytes_Unlocked by (intro exI [of _ buf]) simp
next
  assume "\<forall>x. input = JString x \<longrightarrow> x = []"
  then show "createBufferFromString h input =
      Inl (MutexError ''Invalid input: must be a non-empty string'')"
    by (cases input) (simp_all add: createBufferFromString_def)
qed

text \<open>The identifier \<^verbatim>\<open>x\<close> (one code unit, 120), and the empty string.\<close>

theorem string_buffer_layout_witness:
  "createBufferFromString example_host (JString [120]) = Inr [0, 0, 0, 0, 120, 0, 0, 0]
   \<and> (\<exists>buf. createBufferFromString example_host (JString [120]) = Inr buf
         \<and> length buf mod 4 = 0
         \<and> take 4 buf = int32_bytes Unlocked
         \<and> int32_at 0 buf = Some Unlocked
         \<and> take 1 (drop 4 buf) = [120])
   \<and> createBufferFromString example_host (JString []) =
        Inl (MutexError ''Invalid input: must be a non-empty string'')"
proof -
  have ne: "[120 :: 16 word] \<noteq> []" by simp
  have e: "\<forall>x. JString [] = JString x \<longrightarrow> x = []" by simp
  note c = string_buffer_layout [of "[120]" example_host "JString []"]
  have "\<exists>buf. createBufferFromString example_host (JString [120]) = Inr buf
         \<and> length buf mod 4 = 0
         \<and> take 4 buf = int32_bytes Unlocked
         \<and> int32_at 0 buf = Some Unlocked
         \<and> take 1 (drop 4 buf) = [120]"
    using c ne by (auto simp: ex_encode)
  moreover have "createBufferFromString example_host (JString []) =
        Inl (MutexError ''Invalid input: must be a non-empty string'')"
    using c e by blast
  moreover have "createBufferFromString example_host (JString [120]) =
        Inr [0, 0, 0, 0, 120, 0, 0, 0]"
    using string_buffer [OF ne, of example_host] by (simp add: ex_encode numeral_eq_Suc)
  ultimately show ?thesis by blast
qed

text \<open>
  Claim C10. When the standalone \<open>unlock\<close> raises the not-locked error, the value it found
  in the lock word was not Locked, the memory is exactly as before the call, and no
  notification has been issued: its only host call is the compare-and-swap that failed.
\<close>

theorem unlock_not_locked_atomic:
  assumes "unlock buf False w =
             (Inl (MutexError ''Cannot unlock mutex that is not locked''), w')"
  shows "heap w' = heap w \<and> fresh w' = fresh w
     \<and> (\<forall>e \<in> set (emitted w w'). \<not> is_notify e)
     \<and> (\<exists>b. buf = JInt32Array b \<and> heap w (base b) \<noteq> Locked
          \<and> emitted w w' = [CompareExchange (base b) Locked Unlocked (heap w (base b))])"
proof (cases "validateMutexBuffer buf")
  case None
  then obtain b where b: "buf = JInt32Array b" using valid_buffer_shape by blast
  show ?thesis
    using assms None unfolding b
    by (auto simp: unlock_valid emitted_def split: if_splits)
next
  case (Some e)
  then show ?thesis using assms
    by (cases buf) (auto simp: unlock_def split: if_splits)
qed

text \<open>\<^verbatim>\<open>m = createMutex(); m.unlock()\<close>\<close>

theorem unlock_not_locked_atomic_witness:
  "unlock (JInt32Array (buffer ex_mutex)) False ex_created =
     (Inl (MutexError ''Cannot unlock mutex that is not locked''),
      \<lparr>heap = (\<lambda>a. 0)(0 := Unlocked), fresh = 1,
       log = [CompareExchange 0 Locked Unlocked Unlocked]\<rparr>)
   \<and> (\<lambda>a. 0)(0 := Unlocked) = heap ex_created"
  using unlock_not_locked_atomic [OF ex_unlock_fails] ex_unlock_fails by simp

end
